theory Spec2Isabelle
  imports Complex_Main "HOL-Library.Log_Nat"
begin

section \<open>Python values used by the option symbol codec\<close>

text \<open>
  A Python \<^verbatim>\<open>str\<close> is modelled as a \<open>string\<close>: a list of characters, each read as the
  Unicode code point of the same number (0 to 255). Exceptions are values: a function that
  can raise returns \<open>error + 'a\<close>, with \<open>Inl\<close> the exception and its message.
\<close>

datatype error = ValueError string | OverflowError string

subsection \<open>Strings\<close>

text \<open>
  \<^verbatim>\<open>s.split(sep)\<close> for a separator of one character: the pieces between the separators.
  The result is never empty, so the last case of the inner \<open>case\<close> is never taken.
\<close>

fun split :: "char \<Rightarrow> string \<Rightarrow> string list" where
  "split sep [] = [[]]"
| "split sep (c # cs) =
     (if c = sep then [] # split sep cs
      else (case split sep cs of
              piece # pieces \<Rightarrow> (c # piece) # pieces
            | [] \<Rightarrow> [[c]]))"

definition is_digit :: "char \<Rightarrow> bool" where
  "is_digit c = (c \<in> set ''0123456789'')"

definition digit_value :: "char \<Rightarrow> int" where
  "digit_value c = of_char c - 48"

definition digit_char :: "int \<Rightarrow> char" where
  "digit_char n = ''0123456789'' ! nat n"

text \<open>The number a string of decimal digits denotes (\<^verbatim>\<open>int(s)\<close> on digits).\<close>

definition int_of_digits :: "string \<Rightarrow> int" where
  "int_of_digits s = foldl (\<lambda>acc c. 10 * acc + digit_value c) 0 s"

text \<open>\<^verbatim>\<open>str(n)\<close> for a Python int: decimal digits, no leading zero, a minus sign if negative.\<close>

function str_digits :: "int \<Rightarrow> string" where
  "str_digits n =
     (if n < 10 then [digit_char n] else str_digits (n div 10) @ [digit_char (n mod 10)])"
  by pat_completeness auto
termination
  by (relation "measure nat") auto

declare str_digits.simps [simp del]

definition str_int :: "int \<Rightarrow> string" where
  "str_int i = (if i < 0 then CHR ''-'' # str_digits (- i) else str_digits i)"

subsection \<open>Calendar dates: \<^verbatim>\<open>datetime.date\<close>, \<^verbatim>\<open>strptime\<close> and \<^verbatim>\<open>strftime\<close> with \<^verbatim>\<open>%y%m%d\<close>\<close>

record date =
  year :: int
  month :: int
  day :: int

record datetime = date +
  hour :: int
  minute :: int
  second :: int
  microsecond :: int

definition is_leap :: "int \<Rightarrow> bool" where
  "is_leap y = (y mod 4 = 0 \<and> (y mod 400 = 0 \<or> y mod 100 \<noteq> 0))"

definition days_in_month :: "int \<Rightarrow> int \<Rightarrow> int" where
  "days_in_month y m =
     (if m = 2 then (if is_leap y then 29 else 28)
      else if m \<in> {4, 6, 9, 11} then 30 else 31)"

text \<open>
  The values a \<^verbatim>\<open>datetime.date\<close> can hold: its constructor raises ValueError for any other
  year, month or day.
\<close>

definition valid_date :: "int \<Rightarrow> int \<Rightarrow> int \<Rightarrow> bool" where
  "valid_date y m d =
     (1 \<le> y \<and> y \<le> 9999 \<and> 1 \<le> m \<and> m \<le> 12 \<and> 1 \<le> d \<and> d \<le> days_in_month y m)"

text \<open>
  \<^verbatim>\<open>strptime\<close> compiles the format \<^verbatim>\<open>%y%m%d\<close> to the regular expression
  \<^verbatim>\<open>(?P<y>\d\d)(?P<m>1[0-2]|0[1-9]|[1-9])(?P<d>3[0-1]|[1-2]\d|0[1-9]|[1-9]| [1-9])\<close>
  and matches it at the start of the string. A matcher returns every way it can match a
  prefix, as (matched text, rest), in the order a backtracking matcher tries them:
  alternatives from left to right.
\<close>

type_synonym matcher = "string \<Rightarrow> (string \<times> string) list"

definition one_of :: "string \<Rightarrow> matcher" where
  "one_of cs s = (case s of [] \<Rightarrow> [] | c # r \<Rightarrow> if c \<in> set cs then [([c], r)] else [])"

definition seq :: "matcher \<Rightarrow> matcher \<Rightarrow> matcher" where
  "seq p q s = concat (map (\<lambda>(a, r). map (\<lambda>(b, r'). (a @ b, r')) (q r)) (p s))"

definition alt :: "matcher list \<Rightarrow> matcher" where
  "alt ps s = concat (map (\<lambda>p. p s) ps)"

definition re_y :: matcher where
  "re_y = seq (one_of ''0123456789'') (one_of ''0123456789'')"

definition re_m :: matcher where
  "re_m = alt [seq (one_of ''1'') (one_of ''012''),
               seq (one_of ''0'') (one_of ''123456789''),
               one_of ''123456789'']"

definition re_d :: matcher where
  "re_d = alt [seq (one_of ''3'') (one_of ''01''),
               seq (one_of ''12'') (one_of ''0123456789''),
               seq (one_of ''0'') (one_of ''123456789''),
               one_of ''123456789'',
               seq (one_of '' '') (one_of ''123456789'')]"

text \<open>All matches of the whole pattern, as (y, m, d, rest), first match first.\<close>

definition re_ymd :: "string \<Rightarrow> (string \<times> string \<times> string \<times> string) list" where
  "re_ymd s =
     concat (map (\<lambda>(y, r1).
       concat (map (\<lambda>(m, r2).
         map (\<lambda>(d, r3). (y, m, d, r3)) (re_d r2)) (re_m r1))) (re_y s))"

text \<open>
  \<^verbatim>\<open>datetime.datetime.strptime(s, '%y%m%d')\<close>. The first match
  counts; text left after it is an error. A two-digit year up to 68 is in 2000-2068, from
  69 on in 1969-1999. \<^verbatim>\<open>int\<close> skips the blank a day may start with. The day is checked
  against the month's length. Every failure is a ValueError.
\<close>

definition strptime_ymd :: "string \<Rightarrow> error + datetime" where
  "strptime_ymd s =
     (case re_ymd s of
        [] \<Rightarrow> Inl (ValueError ''time data does not match format'')
      | (y, m, d, rest) # _ \<Rightarrow>
          if rest \<noteq> [] then Inl (ValueError ''unconverted data remains'')
          else
            let yy = int_of_digits y;
                y4 = (if yy \<le> 68 then yy + 2000 else yy + 1900);
                mm = int_of_digits m;
                dd = int_of_digits (dropWhile (\<lambda>c. c = CHR '' '') d)
            in if dd \<le> days_in_month y4 mm
               then Inr \<lparr>year = y4, month = mm, day = dd,
                         hour = 0, minute = 0, second = 0, microsecond = 0\<rparr>
               else Inl (ValueError ''day is out of range for month''))"

definition two_digits :: "int \<Rightarrow> string" where
  "two_digits n = [digit_char (n div 10), digit_char (n mod 10)]"

text \<open>\<^verbatim>\<open>d.strftime('%y%m%d')\<close>.\<close>

definition strftime_ymd :: "date \<Rightarrow> string" where
  "strftime_ymd d = two_digits (year d mod 100) @ two_digits (month d) @ two_digits (day d)"

subsection \<open>Floats: \<^verbatim>\<open>float(s)\<close>, comparison, multiplication and \<^verbatim>\<open>int(x)\<close>\<close>

text \<open>
  A Python float is an IEEE 754 binary64 number: a finite value is kept as the rational it
  denotes, so every operation below is exact arithmetic followed by the rounding the
  hardware does. The sign of zero is not kept: nothing the codec does can observe it.
\<close>

datatype pyfloat = Finite rat | PosInf | NegInf | NaN

definition pow2 :: "int \<Rightarrow> rat" where
  "pow2 e = (if 0 \<le> e then 2 ^ nat e else 1 / 2 ^ nat (- e))"

text \<open>For \<open>0 < q\<close>, the exponent \<open>e\<close> with \<open>2^e \<le> q < 2^(e+1)\<close>.\<close>

definition ilog2 :: "rat \<Rightarrow> int" where
  "ilog2 q =
     (let e = bitlen (fst (quotient_of q)) - bitlen (snd (quotient_of q))
      in if pow2 e \<le> q then e else e - 1)"

definition round_half_even :: "rat \<Rightarrow> int" where
  "round_half_even x =
     (let f = \<lfloor>x\<rfloor>; r = x - of_int f
      in if r < 1 / 2 then f
         else if 1 / 2 < r then f + 1
         else if even f then f else f + 1)"

text \<open>
  The spacing of binary64 numbers around \<open>a > 0\<close> is \<open>2^(ulp_exp a)\<close>: 53 significant bits,
  and never finer than \<open>2^-1074\<close> (the subnormal numbers).
\<close>

definition ulp_exp :: "rat \<Rightarrow> int" where
  "ulp_exp a = max (ilog2 a - 52) (- 1074)"

text \<open>Round to nearest, ties to even, for \<open>a > 0\<close>: the nearest multiple of the spacing.\<close>

definition round_pos :: "rat \<Rightarrow> rat" where
  "round_pos a = of_int (round_half_even (a / pow2 (ulp_exp a))) * pow2 (ulp_exp a)"

text \<open>
  The binary64 number nearest to a rational. The largest exponent of a binary64 number is
  1023: a rounded value of \<open>2^1024\<close> or more is an infinity.
\<close>

definition round_to_double :: "rat \<Rightarrow> pyfloat" where
  "round_to_double q =
     (if q = 0 then Finite 0
      else if 0 < q
        then (if 1024 \<le> ilog2 (round_pos q) then PosInf else Finite (round_pos q))
        else (if 1024 \<le> ilog2 (round_pos (- q)) then NegInf
              else Finite (- round_pos (- q))))"

text \<open>
  What a float literal denotes before rounding: a number, an infinity (\<open>True\<close> for the
  negative one) or not-a-number.
\<close>

datatype literal = LNum rat | LInf bool | LNaN

text \<open>
  \<^verbatim>\<open>float(s)\<close> first maps non-ASCII white space to a blank and stops at the first other
  character from 127 on, which it replaces by a question mark. Of the code points below
  256, those that are white space and not ASCII are 0x85 and 0xA0.
\<close>

fun to_ascii :: "string \<Rightarrow> string" where
  "to_ascii [] = []"
| "to_ascii (c # cs) =
     (if (of_char c :: int) < 127 then c # to_ascii cs
      else if c = CHR 0x85 \<or> c = CHR 0xA0 then CHR '' '' # to_ascii cs
      else ''?'')"

text \<open>C's \<^verbatim>\<open>isspace\<close>: blank, tab, line feed, vertical tab, form feed, carriage return.\<close>

definition is_space :: "char \<Rightarrow> bool" where
  "is_space c = (c = CHR '' '' \<or> (9 \<le> (of_char c :: int) \<and> (of_char c :: int) \<le> 13))"

definition strip_spaces :: "string \<Rightarrow> string" where
  "strip_spaces s = rev (dropWhile is_space (rev (dropWhile is_space s)))"

text \<open>
  Underscores: one is allowed only between two digits, and is dropped. \<open>prev\<close> is the
  character before (NUL at the start). \<open>None\<close> is the error.
\<close>

fun drop_underscores :: "char \<Rightarrow> string \<Rightarrow> string option" where
  "drop_underscores prev [] = (if prev = CHR ''_'' then None else Some [])"
| "drop_underscores prev (c # cs) =
     (if c = CHR ''_''
      then (if is_digit prev then drop_underscores c cs else None)
      else if prev = CHR ''_'' \<and> \<not> is_digit c then None
      else map_option ((#) c) (drop_underscores c cs))"

text \<open>An optional sign: (is it a minus, the rest).\<close>

definition parse_sign :: "string \<Rightarrow> bool \<times> string" where
  "parse_sign s =
     (case s of
        c # r \<Rightarrow> if c = CHR ''-'' then (True, r) else if c = CHR ''+'' then (False, r) else (False, s)
      | [] \<Rightarrow> (False, s))"

definition lower :: "char \<Rightarrow> char" where
  "lower c = (if 65 \<le> (of_char c :: int) \<and> (of_char c :: int) \<le> 90
              then char_of ((of_char c :: int) + 32) else c)"

text \<open>
  \<^verbatim>\<open>_Py_parse_inf_or_nan\<close>: after an optional sign, "inf" or "infinity" or "nan" in any
  case. The result is the literal and the text after it; \<open>None\<close> when none of them starts
  the string.
\<close>

definition parse_inf_or_nan :: "string \<Rightarrow> (literal \<times> string) option" where
  "parse_inf_or_nan s =
     (let (neg, r) = parse_sign s in
      if map lower (take 3 r) = ''inf''
      then (if map lower (take 5 (drop 3 r)) = ''inity''
            then Some (LInf neg, drop 8 r) else Some (LInf neg, drop 3 r))
      else if map lower (take 3 r) = ''nan'' then Some (LNaN, drop 3 r)
      else None)"

text \<open>
  The exponent part, read at the text after the digits: \<^verbatim>\<open>e\<close> or \<^verbatim>\<open>E\<close>, an optional sign,
  at least one digit. Without a digit the exponent part is not consumed. An exponent of
  more than nine significant digits, or above 1100000000, counts as 1100000000.
\<close>

definition parse_exponent :: "string \<Rightarrow> int \<times> string" where
  "parse_exponent s =
     (case s of
        [] \<Rightarrow> (0, s)
      | c # r \<Rightarrow>
          if c = CHR ''e'' \<or> c = CHR ''E''
          then (let (eneg, r1) = parse_sign r;
                    ds = takeWhile is_digit r1;
                    sig = dropWhile (\<lambda>c. c = CHR ''0'') ds;
                    a = (if 9 < length sig \<or> 1100000000 < int_of_digits sig
                         then 1100000000 else int_of_digits sig)
                in if ds = [] then (0, s)
                   else (if eneg then - a else a, dropWhile is_digit r1))
          else (0, s))"

text \<open>
  The decimal number grammar of \<^verbatim>\<open>_Py_dg_strtod\<close>: an optional sign, digits, an optional
  point and digits, at least one digit in all, an optional exponent. The result is the
  exact value and the text not consumed. More than 10^9 digits are refused.
\<close>

definition power10 :: "int \<Rightarrow> rat" where
  "power10 e = (if 0 \<le> e then 10 ^ nat e else 1 / 10 ^ nat (- e))"

definition parse_decimal :: "string \<Rightarrow> (rat \<times> string) option" where
  "parse_decimal s =
     (let (neg, r) = parse_sign s;
          ip = takeWhile is_digit r;
          r1 = dropWhile is_digit r;
          fp = (case r1 of [] \<Rightarrow> [] | c # r2 \<Rightarrow> if c = CHR ''.'' then takeWhile is_digit r2 else []);
          r3 = (case r1 of [] \<Rightarrow> [] | c # r2 \<Rightarrow> if c = CHR ''.'' then dropWhile is_digit r2 else r1);
          sig = dropWhile (\<lambda>c. c = CHR ''0'') (ip @ fp);
          (ex, r4) = parse_exponent r3;
          v = of_int (int_of_digits (ip @ fp)) * power10 (ex - int (length fp))
      in if ip = [] \<and> fp = [] then None
         else if 1000000000 < int (length sig) \<or> 1000000000 < int (length fp) then None
         else Some (if neg then - v else v, r4))"

text \<open>
  The literal a string denotes for \<^verbatim>\<open>float\<close>: white space stripped, underscores dropped,
  then an infinity, a not-a-number or a decimal number that takes the whole text.
\<close>

definition parse_float_literal :: "string \<Rightarrow> literal option" where
  "parse_float_literal s =
     (let t = strip_spaces (to_ascii s) in
      if t = [] then None
      else case drop_underscores (CHR 0x00) t of
        None \<Rightarrow> None
      | Some u \<Rightarrow>
          (case parse_inf_or_nan u of
             Some (l, rest) \<Rightarrow> if rest = [] then Some l else None
           | None \<Rightarrow>
               (case parse_decimal u of
                  None \<Rightarrow> None
                | Some (v, rest) \<Rightarrow> if rest = [] then Some (LNum v) else None)))"


definition literal_value :: "literal \<Rightarrow> pyfloat" where
  "literal_value l =
     (case l of LNum q \<Rightarrow> round_to_double q
              | LInf neg \<Rightarrow> (if neg then NegInf else PosInf)
              | LNaN \<Rightarrow> NaN)"

text \<open>\<^verbatim>\<open>float(s)\<close>: \<open>None\<close> is the ValueError "could not convert string to float".\<close>

definition float_of_string :: "string \<Rightarrow> pyfloat option" where
  "float_of_string s = map_option literal_value (parse_float_literal s)"

text \<open>\<^verbatim>\<open>x <= n\<close> and \<^verbatim>\<open>x < n\<close> for a float and an int: exact; false for not-a-number.\<close>

definition float_le_int :: "pyfloat \<Rightarrow> int \<Rightarrow> bool" where
  "float_le_int x n =
     (case x of Finite r \<Rightarrow> r \<le> of_int n | PosInf \<Rightarrow> False | NegInf \<Rightarrow> True | NaN \<Rightarrow> False)"

definition float_less_int :: "pyfloat \<Rightarrow> int \<Rightarrow> bool" where
  "float_less_int x n =
     (case x of Finite r \<Rightarrow> r < of_int n | PosInf \<Rightarrow> False | NegInf \<Rightarrow> True | NaN \<Rightarrow> False)"

text \<open>
  \<^verbatim>\<open>x * n\<close> for a float and a positive int that is a binary64 number itself (1000 here):
  the exact product, rounded.
\<close>

definition float_mul_int :: "pyfloat \<Rightarrow> int \<Rightarrow> pyfloat" where
  "float_mul_int x n =
     (case x of Finite r \<Rightarrow> round_to_double (r * of_int n)
              | PosInf \<Rightarrow> PosInf | NegInf \<Rightarrow> NegInf | NaN \<Rightarrow> NaN)"

text \<open>\<^verbatim>\<open>int(x)\<close>: towards zero; an infinity and not-a-number raise.\<close>

definition trunc :: "rat \<Rightarrow> int" where
  "trunc r = (if 0 \<le> r then \<lfloor>r\<rfloor> else \<lceil>r\<rceil>)"

definition int_of_float :: "pyfloat \<Rightarrow> error + int" where
  "int_of_float x =
     (case x of
        Finite r \<Rightarrow> Inr (trunc r)
      | PosInf \<Rightarrow> Inl (OverflowError ''cannot convert float infinity to integer'')
      | NegInf \<Rightarrow> Inl (OverflowError ''cannot convert float infinity to integer'')
      | NaN \<Rightarrow> Inl (ValueError ''cannot convert float NaN to integer''))"

section \<open>The option symbol codec of schwab/orders/options.py\<close>

subsection \<open>The error messages\<close>

text \<open>
  Every error the module raises is a ValueError; the spec names them by what they report.
  A single quote is \<open>CHR 0x27\<close> and a backslash \<open>CHR 0x5C\<close>.
\<close>

definition InvalidDateFormat :: error where
  "InvalidDateFormat =
     ValueError (''expiration date must follow format '' @
                 ''[Two digit year][Two digit month]'' @
                 ''[Two digit day]'')"

definition InvalidContractType :: error where
  "InvalidContractType =
     ValueError (''Contract type must be one of '' @ [CHR 0x27] @ ''C'' @ [CHR 0x27] @ '', '' @
                 [CHR 0x27] @ ''CALL'' @ [CHR 0x27] @ '', '' @ [CHR 0x27] @ ''P'' @ [CHR 0x27] @
                 '' or '' @ [CHR 0x27] @ ''PUT'' @ [CHR 0x27])"

definition InvalidDateType :: error where
  "InvalidDateType =
     ValueError (''expiration_date must be a string with format %y%m%d '' @
                 ''(e.g. 240119) or one of datetime.date or '' @
                 ''datetime.datetime'')"

definition InvalidStrike :: error where
  "InvalidStrike = ValueError ''Strike price must be a string representing a positive float''"

definition format_error_str :: string where
  "format_error_str =
     ''option symbol must have format '' @
     ''[Underlying]_[Expiration][P/C][Strike]''"

definition MissingUnderscore :: error where
  "MissingUnderscore =
     ValueError (''option symbol missing underscore '' @ [CHR 0x27] @ ''_'' @ [CHR 0x27] @ '', '' @
                 format_error_str)"

definition MissingContractType :: error where
  "MissingContractType =
     ValueError (''option must have contract type '' @ [CHR 0x5C, CHR 0x27] @ ''C'' @
                 [CHR 0x5C, CHR 0x27] @ '' r '' @ [CHR 0x5C, CHR 0x27, CHR 0x5C] @ ''P'' @
                 [CHR 0x5C, CHR 0x27] @ '', '' @ format_error_str)"

text \<open>The spec's InvalidSymbolFormat: either of the two errors \<^verbatim>\<open>parse_symbol\<close> raises itself.\<close>

definition InvalidSymbolFormat :: "error \<Rightarrow> bool" where
  "InvalidSymbolFormat e = (e = MissingUnderscore \<or> e = MissingContractType)"

subsection \<open>\<^verbatim>\<open>_parse_expiration_date\<close>\<close>

definition parse_expiration_date :: "string \<Rightarrow> error + date" where
  "parse_expiration_date expiration_date =
     (case strptime_ymd expiration_date of
        Inr date \<Rightarrow> Inr \<lparr>year = year date, month = month date, day = day date\<rparr>
      | Inl _ \<Rightarrow> Inl InvalidDateFormat)"

subsection \<open>\<^verbatim>\<open>OptionSymbol\<close>\<close>

record OptionSymbol =
  underlying_symbol :: string
  contract_type :: string
  expiration_date :: date
  strike_price :: string

text \<open>
  The expiration date argument is a string, a \<^verbatim>\<open>datetime.datetime\<close>, a \<^verbatim>\<open>datetime.date\<close>
  or a value of any other type.
\<close>

datatype expiration_arg = ExpStr string | ExpDateTime datetime | ExpDate date | ExpOther

text \<open>
  The date arguments Python can pass: a \<^verbatim>\<open>date\<close> or \<^verbatim>\<open>datetime\<close> object always holds a
  date of the calendar.
\<close>

definition valid_expiration :: "expiration_arg \<Rightarrow> bool" where
  "valid_expiration e =
     (case e of
        ExpDateTime dt \<Rightarrow> valid_date (year dt) (month dt) (day dt)
      | ExpDate d \<Rightarrow> valid_date (year d) (month d) (day d)
      | ExpStr s \<Rightarrow> True
      | ExpOther \<Rightarrow> True)"

text \<open>Lines 62 to 68 of \<^verbatim>\<open>__init__\<close>: the contract type.\<close>

definition init_contract_type :: "string \<Rightarrow> error + string" where
  "init_contract_type contract_type_arg =
     (if contract_type_arg \<in> set [''C'', ''CALL''] then Inr ''C''
      else if contract_type_arg \<in> set [''P'', ''PUT''] then Inr ''P''
      else Inl InvalidContractType)"

text \<open>Lines 70 to 85 of \<^verbatim>\<open>__init__\<close>: the expiration date.\<close>

definition init_expiration_date :: "expiration_arg \<Rightarrow> error + date" where
  "init_expiration_date expiration =
     (case expiration of
        ExpStr s \<Rightarrow> parse_expiration_date s
      | ExpDateTime dt \<Rightarrow> Inr \<lparr>year = year dt, month = month dt, day = day dt\<rparr>
      | ExpDate d \<Rightarrow> Inr d
      | ExpOther \<Rightarrow> Inl InvalidDateType)"

text \<open>
  Lines 87 to 98 of \<^verbatim>\<open>__init__\<close>: the strike. The \<^verbatim>\<open>try\<close> covers \<^verbatim>\<open>float\<close> and the sign
  check only; what \<^verbatim>\<open>int\<close> raises afterwards is not caught.
\<close>

definition init_strike_price :: "string \<Rightarrow> error + string" where
  "init_strike_price strike_price_as_string =
     (case float_of_string strike_price_as_string of
        None \<Rightarrow> Inl InvalidStrike
      | Some strike \<Rightarrow>
          if float_le_int strike 0 then Inl InvalidStrike
          else if float_less_int strike 1000
          then (case int_of_float (float_mul_int strike 1000) of
                  Inl e \<Rightarrow> Inl e | Inr n \<Rightarrow> Inr (''00'' @ str_int n))
          else (case int_of_float (float_mul_int strike 1000) of
                  Inl e \<Rightarrow> Inl e | Inr n \<Rightarrow> Inr (''0'' @ str_int n)))"

text \<open>\<^verbatim>\<open>OptionSymbol.__init__\<close>: the three checks in the order of the source.\<close>

definition OptionSymbol_init ::
  "string \<Rightarrow> expiration_arg \<Rightarrow> string \<Rightarrow> string \<Rightarrow> error + OptionSymbol" where
  "OptionSymbol_init underlying expiration contract_type_arg strike_price_as_string =
     (case init_contract_type contract_type_arg of
        Inl e \<Rightarrow> Inl e
      | Inr ct \<Rightarrow>
          (case init_expiration_date expiration of
             Inl e \<Rightarrow> Inl e
           | Inr d \<Rightarrow>
               (case init_strike_price strike_price_as_string of
                  Inl e \<Rightarrow> Inl e
                | Inr sp \<Rightarrow>
                    Inr \<lparr>underlying_symbol = underlying, contract_type = ct,
                         expiration_date = d, strike_price = sp\<rparr>)))"

text \<open>\<^verbatim>\<open>OptionSymbol.parse_symbol\<close>.\<close>

definition parse_symbol :: "string \<Rightarrow> error + OptionSymbol" where
  "parse_symbol symbol =
     (if length (split CHR ''_'' symbol) \<noteq> 2 then Inl MissingUnderscore
      else
        let underlying = split CHR ''_'' symbol ! 0;
            rest = split CHR ''_'' symbol ! 1
        in if length (split CHR ''P'' rest) = 2
           then (case parse_expiration_date (split CHR ''P'' rest ! 0) of
                   Inl e \<Rightarrow> Inl e
                 | Inr d \<Rightarrow> OptionSymbol_init underlying (ExpDate d) ''P'' (split CHR ''P'' rest ! 1))
           else if length (split CHR ''C'' rest) = 2
           then (case parse_expiration_date (split CHR ''C'' rest ! 0) of
                   Inl e \<Rightarrow> Inl e
                 | Inr d \<Rightarrow> OptionSymbol_init underlying (ExpDate d) ''C'' (split CHR ''C'' rest ! 1))
           else Inl MissingContractType)"

text \<open>\<^verbatim>\<open>OptionSymbol.build\<close>.\<close>

definition build :: "OptionSymbol \<Rightarrow> string" where
  "build self =
     underlying_symbol self @ ''  '' @ strftime_ymd (expiration_date self) @
     contract_type self @ strike_price self"

section \<open>The order recipes of schwab/orders/options.py\<close>

subsection \<open>Enumerations and the generic order builder\<close>

text \<open>
  Modelled from the spec: the enumeration module \<^verbatim>\<open>schwab.orders.common\<close> is imported by
  the recipes but is not among the sources. Each enumeration lists the members that
  options.py names; every further member is kept under an \<open>Other\<close> constructor carrying its
  name, so that "the field is SINGLE" is a statement with content.
\<close>

datatype Session = NORMAL | OtherSession string

datatype Duration = DAY | OtherDuration string

datatype OrderType = MARKET | LIMIT | NET_DEBIT | NET_CREDIT | OtherOrderType string

datatype OrderStrategyType = SINGLE | OtherOrderStrategyType string

datatype ComplexOrderStrategyType = VERTICAL | OtherComplexOrderStrategyType string

datatype OptionInstruction = BUY_TO_OPEN | SELL_TO_OPEN | BUY_TO_CLOSE | SELL_TO_CLOSE

text \<open>
  Modelled from the spec: the class \<^verbatim>\<open>schwab.orders.generic.OrderBuilder\<close> is not among the
  sources. The spec (sections 1 and 6) describes it as a plain field accumulator with a
  "set field / produce document" contract: set session, set duration, set order type, set
  price, set quantity, set complex-order-strategy-type, set order-strategy-type, and append
  an option leg (instruction, symbol, quantity). A field that was never set is \<open>None\<close>.
  Quantities and prices are opaque to the recipes, hence the type parameters.
\<close>

record 'q option_leg =
  leg_instruction :: OptionInstruction
  leg_symbol :: string
  leg_quantity :: 'q

record ('q, 'p) OrderBuilder =
  ob_session :: "Session option"
  ob_duration :: "Duration option"
  ob_order_type :: "OrderType option"
  ob_price :: "'p option"
  ob_quantity :: "'q option"
  ob_complex_order_strategy_type :: "ComplexOrderStrategyType option"
  ob_order_strategy_type :: "OrderStrategyType option"
  ob_legs :: "'q option_leg list"

text \<open>Modelled from the spec: \<^verbatim>\<open>OrderBuilder()\<close>, the builder with no field set and no leg.\<close>

definition new_OrderBuilder :: "('q, 'p) OrderBuilder" where
  "new_OrderBuilder =
     \<lparr>ob_session = None, ob_duration = None, ob_order_type = None, ob_price = None,
      ob_quantity = None, ob_complex_order_strategy_type = None,
      ob_order_strategy_type = None, ob_legs = []\<rparr>"

text \<open>Modelled from the spec: each setter stores its argument in its field and returns the builder.\<close>

definition set_session :: "Session \<Rightarrow> ('q, 'p) OrderBuilder \<Rightarrow> ('q, 'p) OrderBuilder" where
  "set_session s b = b\<lparr>ob_session := Some s\<rparr>"

definition set_duration :: "Duration \<Rightarrow> ('q, 'p) OrderBuilder \<Rightarrow> ('q, 'p) OrderBuilder" where
  "set_duration d b = b\<lparr>ob_duration := Some d\<rparr>"

definition set_order_type :: "OrderType \<Rightarrow> ('q, 'p) OrderBuilder \<Rightarrow> ('q, 'p) OrderBuilder" where
  "set_order_type t b = b\<lparr>ob_order_type := Some t\<rparr>"

definition set_price :: "'p \<Rightarrow> ('q, 'p) OrderBuilder \<Rightarrow> ('q, 'p) OrderBuilder" where
  "set_price p b = b\<lparr>ob_price := Some p\<rparr>"

definition set_quantity :: "'q \<Rightarrow> ('q, 'p) OrderBuilder \<Rightarrow> ('q, 'p) OrderBuilder" where
  "set_quantity q b = b\<lparr>ob_quantity := Some q\<rparr>"

definition set_complex_order_strategy_type ::
  "ComplexOrderStrategyType \<Rightarrow> ('q, 'p) OrderBuilder \<Rightarrow> ('q, 'p) OrderBuilder" where
  "set_complex_order_strategy_type c b = b\<lparr>ob_complex_order_strategy_type := Some c\<rparr>"

definition set_order_strategy_type ::
  "OrderStrategyType \<Rightarrow> ('q, 'p) OrderBuilder \<Rightarrow> ('q, 'p) OrderBuilder" where
  "set_order_strategy_type t b = b\<lparr>ob_order_strategy_type := Some t\<rparr>"

text \<open>Modelled from the spec: appending an option leg puts it after the legs already present.\<close>

definition add_option_leg ::
  "OptionInstruction \<Rightarrow> string \<Rightarrow> 'q \<Rightarrow> ('q, 'p) OrderBuilder \<Rightarrow> ('q, 'p) OrderBuilder" where
  "add_option_leg i s q b =
     b\<lparr>ob_legs := ob_legs b @ [\<lparr>leg_instruction = i, leg_symbol = s, leg_quantity = q\<rparr>]\<rparr>"

subsection \<open>The recipes\<close>

text \<open>
  Each recipe is the method chain of the source: \<open>chain b [f, g]\<close> is
  \<^verbatim>\<open>b.f(...).g(...)\<close>, the calls applied from left to right.
  \<open>base_builder\<close> is the module's \<^verbatim>\<open>__base_builder\<close>.
\<close>

definition chain :: "'b \<Rightarrow> ('b \<Rightarrow> 'b) list \<Rightarrow> 'b" where
  "chain b calls = fold (\<lambda>call acc. call acc) calls b"

definition base_builder :: "('q, 'p) OrderBuilder" where
  "base_builder = (chain new_OrderBuilder
       [set_session NORMAL,
        set_duration DAY])"

definition option_buy_to_open_market :: "string \<Rightarrow> 'q \<Rightarrow> ('q, 'p) OrderBuilder" where
  "option_buy_to_open_market symbol quantity =
     (chain base_builder
       [set_order_type MARKET,
        set_order_strategy_type SINGLE,
        add_option_leg BUY_TO_OPEN symbol quantity])"

definition option_buy_to_open_limit :: "string \<Rightarrow> 'q \<Rightarrow> 'p \<Rightarrow> ('q, 'p) OrderBuilder" where
  "option_buy_to_open_limit symbol quantity price =
     (chain base_builder
       [set_order_type LIMIT,
        set_price price,
        set_order_strategy_type SINGLE,
        add_option_leg BUY_TO_OPEN symbol quantity])"

definition option_sell_to_open_market :: "string \<Rightarrow> 'q \<Rightarrow> ('q, 'p) OrderBuilder" where
  "option_sell_to_open_market symbol quantity =
     (chain base_builder
       [set_order_type MARKET,
        set_order_strategy_type SINGLE,
        add_option_leg SELL_TO_OPEN symbol quantity])"

definition option_sell_to_open_limit :: "string \<Rightarrow> 'q \<Rightarrow> 'p \<Rightarrow> ('q, 'p) OrderBuilder" where
  "option_sell_to_open_limit symbol quantity price =
     (chain base_builder
       [set_order_type LIMIT,
        set_price price,
        set_order_strategy_type SINGLE,
        add_option_leg SELL_TO_OPEN symbol quantity])"

definition option_buy_to_close_market :: "string \<Rightarrow> 'q \<Rightarrow> ('q, 'p) OrderBuilder" where
  "option_buy_to_close_market symbol quantity =
     (chain base_builder
       [set_order_type MARKET,
        set_order_strategy_type SINGLE,
        add_option_leg BUY_TO_CLOSE symbol quantity])"

definition option_buy_to_close_limit :: "string \<Rightarrow> 'q \<Rightarrow> 'p \<Rightarrow> ('q, 'p) OrderBuilder" where
  "option_buy_to_close_limit symbol quantity price =
     (chain base_builder
       [set_order_type LIMIT,
        set_price price,
        set_order_strategy_type SINGLE,
        add_option_leg BUY_TO_CLOSE symbol quantity])"

definition option_sell_to_close_market :: "string \<Rightarrow> 'q \<Rightarrow> ('q, 'p) OrderBuilder" where
  "option_sell_to_close_market symbol quantity =
     (chain base_builder
       [set_order_type MARKET,
        set_order_strategy_type SINGLE,
        add_option_leg SELL_TO_CLOSE symbol quantity])"

definition option_sell_to_close_limit :: "string \<Rightarrow> 'q \<Rightarrow> 'p \<Rightarrow> ('q, 'p) OrderBuilder" where
  "option_sell_to_close_limit symbol quantity price =
     (chain base_builder
       [set_order_type LIMIT,
        set_price price,
        set_order_strategy_type SINGLE,
        add_option_leg SELL_TO_CLOSE symbol quantity])"

definition bull_call_vertical_open ::
  "string \<Rightarrow> string \<Rightarrow> 'q \<Rightarrow> 'p \<Rightarrow> ('q, 'p) OrderBuilder" where
  "bull_call_vertical_open long_call_symbol short_call_symbol quantity net_debit =
     (chain base_builder
       [set_order_type NET_DEBIT,
        set_complex_order_strategy_type VERTICAL,
        set_price net_debit,
        set_quantity quantity,
        set_order_strategy_type SINGLE,
        add_option_leg BUY_TO_OPEN long_call_symbol quantity,
        add_option_leg SELL_TO_OPEN short_call_symbol quantity])"

definition bull_call_vertical_close ::
  "string \<Rightarrow> string \<Rightarrow> 'q \<Rightarrow> 'p \<Rightarrow> ('q, 'p) OrderBuilder" where
  "bull_call_vertical_close long_call_symbol short_call_symbol quantity net_credit =
     (chain base_builder
       [set_order_type NET_CREDIT,
        set_complex_order_strategy_type VERTICAL,
        set_price net_credit,
        set_quantity quantity,
        set_order_strategy_type SINGLE,
        add_option_leg SELL_TO_CLOSE long_call_symbol quantity,
        add_option_leg BUY_TO_CLOSE short_call_symbol quantity])"

definition bear_call_vertical_open ::
  "string \<Rightarrow> string \<Rightarrow> 'q \<Rightarrow> 'p \<Rightarrow> ('q, 'p) OrderBuilder" where
  "bear_call_vertical_open short_call_symbol long_call_symbol quantity net_credit =
     (chain base_builder
       [set_order_type NET_CREDIT,
        set_complex_order_strategy_type VERTICAL,
        set_price net_credit,
        set_quantity quantity,
        set_order_strategy_type SINGLE,
        add_option_leg SELL_TO_OPEN short_call_symbol quantity,
        add_option_leg BUY_TO_OPEN long_call_symbol quantity])"

definition bear_call_vertical_close ::
  "string \<Rightarrow> string \<Rightarrow> 'q \<Rightarrow> 'p \<Rightarrow> ('q, 'p) OrderBuilder" where
  "bear_call_vertical_close short_call_symbol long_call_symbol quantity net_debit =
     (chain base_builder
       [set_order_type NET_DEBIT,
        set_complex_order_strategy_type VERTICAL,
        set_price net_debit,
        set_quantity quantity,
        set_order_strategy_type SINGLE,
        add_option_leg BUY_TO_CLOSE short_call_symbol quantity,
        add_option_leg SELL_TO_CLOSE long_call_symbol quantity])"

definition bull_put_vertical_open ::
  "string \<Rightarrow> string \<Rightarrow> 'q \<Rightarrow> 'p \<Rightarrow> ('q, 'p) OrderBuilder" where
  "bull_put_vertical_open long_put_symbol short_put_symbol quantity net_credit =
     (chain base_builder
       [set_order_type NET_CREDIT,
        set_complex_order_strategy_type VERTICAL,
        set_price net_credit,
        set_quantity quantity,
        set_order_strategy_type SINGLE,
        add_option_leg BUY_TO_OPEN long_put_symbol quantity,
        add_option_leg SELL_TO_OPEN short_put_symbol quantity])"

definition bull_put_vertical_close ::
  "string \<Rightarrow> string \<Rightarrow> 'q \<Rightarrow> 'p \<Rightarrow> ('q, 'p) OrderBuilder" where
  "bull_put_vertical_close long_put_symbol short_put_symbol quantity net_debit =
     (chain base_builder
       [set_order_type NET_DEBIT,
        set_complex_order_strategy_type VERTICAL,
        set_price net_debit,
        set_quantity quantity,
        set_order_strategy_type SINGLE,
        add_option_leg SELL_TO_CLOSE long_put_symbol quantity,
        add_option_leg BUY_TO_CLOSE short_put_symbol quantity])"

definition bear_put_vertical_open ::
  "string \<Rightarrow> string \<Rightarrow> 'q \<Rightarrow> 'p \<Rightarrow> ('q, 'p) OrderBuilder" where
  "bear_put_vertical_open short_put_symbol long_put_symbol quantity net_debit =
     (chain base_builder
       [set_order_type NET_DEBIT,
        set_complex_order_strategy_type VERTICAL,
        set_price net_debit,
        set_quantity quantity,
        set_order_strategy_type SINGLE,
        add_option_leg SELL_TO_OPEN short_put_symbol quantity,
        add_option_leg BUY_TO_OPEN long_put_symbol quantity])"

definition bear_put_vertical_close ::
  "string \<Rightarrow> string \<Rightarrow> 'q \<Rightarrow> 'p \<Rightarrow> ('q, 'p) OrderBuilder" where
  "bear_put_vertical_close short_put_symbol long_put_symbol quantity net_credit =
     (chain base_builder
       [set_order_type NET_CREDIT,
        set_complex_order_strategy_type VERTICAL,
        set_price net_credit,
        set_quantity quantity,
        set_order_strategy_type SINGLE,
        add_option_leg BUY_TO_CLOSE short_put_symbol quantity,
        add_option_leg SELL_TO_CLOSE long_put_symbol quantity])"

text \<open>A leg as \<^verbatim>\<open>add_option_leg\<close> stores it.\<close>

definition leg :: "OptionInstruction \<Rightarrow> string \<Rightarrow> 'q \<Rightarrow> 'q option_leg" where
  "leg i s q = \<lparr>leg_instruction = i, leg_symbol = s, leg_quantity = q\<rparr>"

section \<open>Facts about the model\<close>

lemma split_nonempty: "split sep s \<noteq> []"
  by (induction s) (auto split: list.splits)

lemma length_split: "length (split sep s) = Suc (count_list s sep)"
  by (induction s) (auto split: list.splits simp: split_nonempty)

lemma split_no_sep: "sep \<notin> set s \<Longrightarrow> split sep s = [s]"
  by (induction s) auto

lemma split_append_sep: "sep \<notin> set a \<Longrightarrow> split sep (a @ sep # b) = a # split sep b"
  by (induction a) auto

lemma split_one_sep:
  "sep \<notin> set a \<Longrightarrow> sep \<notin> set b \<Longrightarrow> split sep (a @ sep # b) = [a, b]"
  by (simp add: split_append_sep split_no_sep)

lemma count_one_decompose:
  "count_list s sep = 1 \<Longrightarrow> \<exists>a b. s = a @ sep # b \<and> sep \<notin> set a \<and> sep \<notin> set b"
proof (induction s)
  case Nil
  then show ?case by simp
next
  case (Cons c s)
  show ?case
  proof (cases "c = sep")
    case True
    with Cons.prems have "count_list s sep = 0" by simp
    then have "sep \<notin> set s" by (simp add: count_list_0_iff)
    with True show ?thesis by (intro exI[of _ "[]"] exI[of _ s]) simp
  next
    case False
    with Cons.prems have "count_list s sep = 1" by simp
    from Cons.IH[OF this] obtain a b where "s = a @ sep # b" "sep \<notin> set a" "sep \<notin> set b" by blast
    with False show ?thesis by (intro exI[of _ "c # a"] exI[of _ b]) simp
  qed
qed

lemma init_contract_type_cases:
  "init_contract_type t = (if t = ''C'' \<or> t = ''CALL'' then Inr ''C'' else if t = ''P'' \<or> t = ''PUT'' then Inr ''P'' else Inl InvalidContractType)"
  by (simp add: init_contract_type_def)

lemma error_msgs_distinct:
  "InvalidDateFormat \<noteq> MissingUnderscore" "InvalidDateFormat \<noteq> MissingContractType"
  "InvalidStrike \<noteq> MissingUnderscore" "InvalidStrike \<noteq> MissingContractType"
  "InvalidContractType \<noteq> MissingUnderscore" "InvalidContractType \<noteq> MissingContractType"
  "InvalidDateType \<noteq> MissingUnderscore" "InvalidDateType \<noteq> MissingContractType"
  "MissingUnderscore \<noteq> MissingContractType"
  by (simp_all add: InvalidDateFormat_def MissingUnderscore_def MissingContractType_def
      InvalidStrike_def InvalidContractType_def InvalidDateType_def)

lemma int_of_float_not_format_error:
  "int_of_float x = Inl e \<Longrightarrow> \<not> InvalidSymbolFormat e"
  by (auto simp: int_of_float_def InvalidSymbolFormat_def MissingUnderscore_def
      MissingContractType_def split: pyfloat.splits)

lemma init_strike_price_not_format_error:
  "init_strike_price s = Inl e \<Longrightarrow> \<not> InvalidSymbolFormat e"
  using error_msgs_distinct
  by (auto simp: init_strike_price_def InvalidSymbolFormat_def
      split: option.splits if_splits sum.splits dest!: int_of_float_not_format_error)

lemma parse_expiration_date_error:
  "parse_expiration_date s = Inl e \<Longrightarrow> e = InvalidDateFormat"
  by (auto simp: parse_expiration_date_def split: sum.splits)

lemma init_from_parse_not_format_error:
  assumes "OptionSymbol_init u (ExpDate d) t s = Inl e" and "t = ''P'' \<or> t = ''C''"
  shows "\<not> InvalidSymbolFormat e"
  using assms init_strike_price_not_format_error
  by (auto simp: OptionSymbol_init_def init_contract_type_cases init_expiration_date_def
      split: sum.splits)

lemma init_contract_type_P: "OptionSymbol_init u e ''P'' s = Inr self \<Longrightarrow> contract_type self = ''P''"
  by (auto simp: OptionSymbol_init_def init_contract_type_cases split: sum.splits)

lemma init_contract_type_C: "OptionSymbol_init u e ''C'' s = Inr self \<Longrightarrow> contract_type self = ''C''"
  by (auto simp: OptionSymbol_init_def init_contract_type_cases split: sum.splits)

lemma parse_expiration_date_not_format_error:
  "parse_expiration_date s = Inl e \<Longrightarrow> \<not> InvalidSymbolFormat e"
  using error_msgs_distinct
  by (auto simp: InvalidSymbolFormat_def dest!: parse_expiration_date_error)

lemma parse_branch_not_format_error:
  assumes "(case parse_expiration_date x of Inl e \<Rightarrow> Inl e
            | Inr d \<Rightarrow> OptionSymbol_init u (ExpDate d) t y) = Inl e"
    and "t = ''P'' \<or> t = ''C''"
  shows "\<not> InvalidSymbolFormat e"
  using assms
  by (auto split: sum.splits dest: parse_expiration_date_not_format_error
      init_from_parse_not_format_error)

lemma parse_symbol_no_underscore:
  "count_list s CHR ''_'' \<noteq> 1 \<Longrightarrow> parse_symbol s = Inl MissingUnderscore"
  by (simp add: parse_symbol_def length_split)

lemma parse_symbol_P:
  assumes "count_list s CHR ''_'' = 1"
    and "length (split CHR ''P'' (split CHR ''_'' s ! 1)) = 2"
  shows "parse_symbol s =
    (case parse_expiration_date (split CHR ''P'' (split CHR ''_'' s ! 1) ! 0) of
       Inl e \<Rightarrow> Inl e
     | Inr d \<Rightarrow> OptionSymbol_init (split CHR ''_'' s ! 0) (ExpDate d) ''P''
                 (split CHR ''P'' (split CHR ''_'' s ! 1) ! 1))"
  using assms by (simp add: parse_symbol_def length_split Let_def cong: sum.case_cong)

lemma parse_symbol_C:
  assumes "count_list s CHR ''_'' = 1"
    and "length (split CHR ''P'' (split CHR ''_'' s ! 1)) \<noteq> 2"
    and "length (split CHR ''C'' (split CHR ''_'' s ! 1)) = 2"
  shows "parse_symbol s =
    (case parse_expiration_date (split CHR ''C'' (split CHR ''_'' s ! 1) ! 0) of
       Inl e \<Rightarrow> Inl e
     | Inr d \<Rightarrow> OptionSymbol_init (split CHR ''_'' s ! 0) (ExpDate d) ''C''
                 (split CHR ''C'' (split CHR ''_'' s ! 1) ! 1))"
  using assms by (simp add: parse_symbol_def length_split Let_def cong: sum.case_cong)

lemma parse_symbol_neither:
  assumes "count_list s CHR ''_'' = 1"
    and "length (split CHR ''P'' (split CHR ''_'' s ! 1)) \<noteq> 2"
    and "length (split CHR ''C'' (split CHR ''_'' s ! 1)) \<noteq> 2"
  shows "parse_symbol s = Inl MissingContractType"
  using assms by (simp add: parse_symbol_def length_split Let_def)

lemma digit_cases: "0 \<le> n \<Longrightarrow> n < 10 \<Longrightarrow> n \<in> {0, 1, 2, 3, 4, 5, 6, 7, 8, 9 :: int}"
  by simp presburger

lemma is_digit_digit_char: "0 \<le> n \<Longrightarrow> n < 10 \<Longrightarrow> is_digit (digit_char n)"
  by (drule (1) digit_cases) (auto simp: is_digit_def digit_char_def)


lemma str_digits_digits: "0 \<le> n \<Longrightarrow> c \<in> set (str_digits n) \<Longrightarrow> is_digit c"
proof (induction n rule: str_digits.induct)
  case (1 n)
  show ?case
  proof (cases "n < 10")
    case True
    with "1.prems" show ?thesis
      by (subst (asm) str_digits.simps) (simp add: is_digit_digit_char)
  next
    case False
    then have "c \<in> set (str_digits (n div 10)) \<or> c = digit_char (n mod 10)"
      using "1.prems"(2) by (subst (asm) str_digits.simps) auto
    then show ?thesis
    proof
      assume "c \<in> set (str_digits (n div 10))"
      with "1.IH"[OF False] "1.prems"(1) show ?thesis by simp
    next
      assume "c = digit_char (n mod 10)"
      then show ?thesis by (simp add: is_digit_digit_char)
    qed
  qed
qed

lemma length_str_digits:
  "10 ^ k \<le> n \<Longrightarrow> n < 10 ^ Suc k \<Longrightarrow> length (str_digits n) = Suc k"
proof (induction k arbitrary: n)
  case 0
  then show ?case by (subst str_digits.simps) simp
next
  case (Suc k)
  have "(10::int) \<le> 10 ^ Suc k" by (simp add: self_le_power)
  then have "10 \<le> n" using Suc.prems(1) by linarith
  have a: "10 ^ k \<le> n div 10" using Suc.prems(1) by simp
  have b: "n div 10 < 10 ^ Suc k" using Suc.prems(2) by simp
  show ?case
    using \<open>10 \<le> n\<close> Suc.IH[OF a b] by (subst str_digits.simps) simp
qed

lemma str_int_digits: "0 \<le> n \<Longrightarrow> c \<in> set (str_int n) \<Longrightarrow> is_digit c"
  by (auto simp: str_int_def dest: str_digits_digits)

lemma str_int_no_char:
  assumes "\<not> is_digit c" and "c \<noteq> CHR ''-''"
  shows "c \<notin> set (str_int n)"
  using assms str_digits_digits[of "- n" c] str_digits_digits[of n c]
  by (auto simp: str_int_def)

lemma two_digits_digits: "0 \<le> n \<Longrightarrow> n < 100 \<Longrightarrow> c \<in> set (two_digits n) \<Longrightarrow> is_digit c"
  by (auto simp: two_digits_def intro!: is_digit_digit_char)












lemma one_of_elem:
  "(x, r) \<in> set (one_of cs s) \<longleftrightarrow> (\<exists>c. s = c # r \<and> x = [c] \<and> c \<in> set cs)"
  by (auto simp: one_of_def split: list.splits)

lemma seq_elem:
  "(x, r) \<in> set (seq p q s) \<longleftrightarrow>
     (\<exists>a b r1. (a, r1) \<in> set (p s) \<and> (b, r) \<in> set (q r1) \<and> x = a @ b)"
  by (force simp: seq_def)

lemma alt_elem: "(x, r) \<in> set (alt ps s) \<longleftrightarrow> (\<exists>p \<in> set ps. (x, r) \<in> set (p s))"
  by (auto simp: alt_def)

lemma digit_value_range: "is_digit c \<Longrightarrow> 0 \<le> digit_value c \<and> digit_value c \<le> 9"
  by (auto simp: is_digit_def digit_value_def)

lemma re_y_range:
  assumes "(y, r) \<in> set (re_y s)"
  shows "0 \<le> int_of_digits y \<and> int_of_digits y \<le> 99"
proof -
  from assms obtain a b where y: "y = [a, b]" and "is_digit a" "is_digit b"
    unfolding re_y_def seq_elem one_of_elem is_digit_def by auto
  then show ?thesis
    using digit_value_range[of a] digit_value_range[of b]
    by (simp add: int_of_digits_def)
qed

lemma re_m_range:
  assumes "(m, r) \<in> set (re_m s)"
  shows "1 \<le> int_of_digits m \<and> int_of_digits m \<le> 12"
  using assms
  by (auto simp: re_m_def alt_elem seq_elem one_of_elem int_of_digits_def digit_value_def)

lemma re_d_range:
  assumes "(d, r) \<in> set (re_d s)"
  shows "1 \<le> int_of_digits (dropWhile (\<lambda>c. c = CHR '' '') d)"
  using assms
  by (auto simp: re_d_def alt_elem seq_elem one_of_elem int_of_digits_def digit_value_def)

lemma re_ymd_elem:
  "(y, m, d, rest) \<in> set (re_ymd s) \<Longrightarrow>
     \<exists>r1 r2. (y, r1) \<in> set (re_y s) \<and> (m, r2) \<in> set (re_m r1) \<and> (d, rest) \<in> set (re_d r2)"
  by (auto simp: re_ymd_def)

lemma strptime_ymd_valid:
  assumes "strptime_ymd s = Inr dt"
  shows "valid_date (year dt) (month dt) (day dt) \<and> 1969 \<le> year dt \<and> year dt \<le> 2068"
proof -
  from assms obtain y m d ms where hd: "re_ymd s = (y, m, d, []) # ms"
    by (auto simp: strptime_ymd_def split: list.splits if_splits)
  then have "(y, m, d, []) \<in> set (re_ymd s)" by simp
  from re_ymd_elem[OF this] obtain r1 r2 where
    "(y, r1) \<in> set (re_y s)" "(m, r2) \<in> set (re_m r1)" "(d, []) \<in> set (re_d r2)" by blast
  then have ry: "0 \<le> int_of_digits y \<and> int_of_digits y \<le> 99"
    and rm: "1 \<le> int_of_digits m \<and> int_of_digits m \<le> 12"
    and rd: "1 \<le> int_of_digits (dropWhile (\<lambda>c. c = CHR '' '') d)"
    by (auto dest: re_y_range re_m_range re_d_range)
  from assms hd show ?thesis
    using ry rm rd
    by (auto simp: strptime_ymd_def Let_def valid_date_def split: if_splits)
qed

lemma parse_expiration_date_valid:
  assumes "parse_expiration_date s = Inr d"
  shows "valid_date (year d) (month d) (day d) \<and> 1969 \<le> year d \<and> year d \<le> 2068"
  using assms strptime_ymd_valid
  by (auto simp: parse_expiration_date_def split: sum.splits)

lemma init_expiration_date_valid:
  assumes "init_expiration_date e = Inr d" and "valid_expiration e"
  shows "valid_date (year d) (month d) (day d)"
  using assms parse_expiration_date_valid
  by (auto simp: init_expiration_date_def valid_expiration_def split: expiration_arg.splits)

lemma underscore_not_digit: "\<not> is_digit CHR ''_''"
  by (simp add: is_digit_def)

lemma strftime_ymd_digits:
  assumes "valid_date (year d) (month d) (day d)" and "c \<in> set (strftime_ymd d)"
  shows "is_digit c"
proof -
  have "day d \<le> 31" using assms(1) by (auto simp: valid_date_def days_in_month_def split: if_splits)
  then show ?thesis
    using assms
    by (auto simp: strftime_ymd_def valid_date_def
        dest!: two_digits_digits[rotated 2])
qed

lemma str_int_chars: "c \<in> set (str_int n) \<Longrightarrow> is_digit c \<or> c = CHR ''-''"
  using str_int_no_char[of c n] by blast

lemma init_strike_price_chars:
  assumes "init_strike_price s = Inr sp" and "c \<in> set sp"
  shows "is_digit c \<or> c = CHR ''-''"
proof -
  have z: "is_digit CHR ''0''" by (simp add: is_digit_def)
  from assms(1) obtain n where "sp = ''00'' @ str_int n \<or> sp = ''0'' @ str_int n"
    by (auto simp: init_strike_price_def split: option.splits if_splits sum.splits)
  with assms(2) have "c = CHR ''0'' \<or> c \<in> set (str_int n)" by auto
  with z str_int_chars show ?thesis by blast
qed

lemma init_fields:
  assumes "OptionSymbol_init u e t s = Inr self"
  shows "underlying_symbol self = u"
    and "contract_type self = ''C'' \<or> contract_type self = ''P''"
    and "init_expiration_date e = Inr (expiration_date self)"
    and "init_strike_price s = Inr (strike_price self)"
  using assms
  by (auto simp: OptionSymbol_init_def init_contract_type_cases split: sum.splits if_splits)

lemma pow2_powi: "pow2 e = 2 powi e"
  by (simp add: pow2_def power_int_def power_divide)

lemma pow2_pos: "0 < pow2 e"
  by (simp add: pow2_powi)

lemma pow2_add: "pow2 (a + b) = pow2 a * pow2 b"
  by (simp add: pow2_powi power_int_add)

lemma pow2_diff: "pow2 (a - b) = pow2 a / pow2 b"
  by (simp add: pow2_powi power_int_diff)

lemma pow2_mono: "a \<le> b \<Longrightarrow> pow2 a \<le> pow2 b"
  by (simp add: pow2_powi power_int_increasing)

lemma pow2_strict_mono: "a < b \<Longrightarrow> pow2 a < pow2 b"
  by (simp add: pow2_powi power_int_strict_increasing)

lemma pow2_le_iff: "pow2 a \<le> pow2 b \<longleftrightarrow> a \<le> b"
  using pow2_mono[of a b] pow2_strict_mono[of b a] by (auto simp: not_le[symmetric])

lemma pow2_less_iff: "pow2 a < pow2 b \<longleftrightarrow> a < b"
  using pow2_strict_mono[of a b] pow2_mono[of b a] by (auto simp: not_less[symmetric])

lemma pow2_nat: "pow2 (int n) = 2 ^ n"
  by (simp add: pow2_def)

lemma pow2_of_int: "0 \<le> k \<Longrightarrow> pow2 k = of_int (2 ^ nat k)"
  by (simp add: pow2_def)

lemma bitlen_pow2_bounds:
  assumes "0 < n"
  shows "pow2 (bitlen n - 1) \<le> of_int n" and "of_int n < pow2 (bitlen n)"
proof -
  have b: "1 \<le> bitlen n" using assms by (simp add: bitlen_alt_def)
  from bitlen_bounds[OF assms] have lo: "2 ^ nat (bitlen n - 1) \<le> n" and hi: "n < 2 ^ nat (bitlen n)"
    by auto
  have "(of_int (2 ^ nat (bitlen n - 1)) :: rat) \<le> of_int n" using lo by (rule of_int_le_iff[THEN iffD2])
  then show "pow2 (bitlen n - 1) \<le> of_int n" using b by (simp add: pow2_def)
  have "(of_int n :: rat) < of_int (2 ^ nat (bitlen n))" using hi by (rule of_int_less_iff[THEN iffD2])
  then show "of_int n < pow2 (bitlen n)" using b by (simp add: pow2_def)
qed

lemma ilog2_bounds:
  assumes "0 < q"
  shows "pow2 (ilog2 q) \<le> q \<and> q < pow2 (ilog2 q + 1)"
proof -
  obtain n d where nd: "quotient_of q = (n, d)" by (cases "quotient_of q")
  have d: "0 < d" using quotient_of_denom_pos[OF nd] .
  have q: "q = of_int n / of_int d" using quotient_of_div[OF nd] .
  have n: "0 < n" using assms d by (simp add: q zero_less_divide_iff)
  define e where "e = bitlen n - bitlen d"
  note bn = bitlen_pow2_bounds[OF n] and bd = bitlen_pow2_bounds[OF d]
  have dpos: "(0::rat) < of_int d" using d by simp
  have hi: "q < pow2 (e + 1)"
  proof -
    have "of_int n < pow2 (bitlen n)" by (rule bn)
    also have "\<dots> = pow2 (e + 1) * pow2 (bitlen d - 1)"
      by (simp add: pow2_add[symmetric] e_def)
    also have "\<dots> \<le> pow2 (e + 1) * of_int d"
      using bd(1) pow2_pos[of "e + 1"] by (simp add: mult_left_mono)
    finally show ?thesis using dpos by (simp add: q pos_divide_less_eq)
  qed
  have lo: "pow2 (e - 1) \<le> q"
  proof -
    have "pow2 (e - 1) * of_int d \<le> pow2 (e - 1) * pow2 (bitlen d)"
      using bd(2) pow2_pos[of "e - 1"] by (simp add: mult_left_mono)
    also have "\<dots> = pow2 (bitlen n - 1)"
      by (simp add: pow2_add[symmetric] e_def)
    also have "\<dots> \<le> of_int n" by (rule bn)
    finally show ?thesis using dpos by (simp add: q pos_le_divide_eq)
  qed
  have il: "ilog2 q = (if pow2 e \<le> q then e else e - 1)"
    by (simp add: ilog2_def nd e_def Let_def)
  show ?thesis
  proof (cases "pow2 e \<le> q")
    case True
    with hi il show ?thesis by simp
  next
    case False
    with lo il show ?thesis by simp
  qed
qed

lemma ilog2_ge_iff: "0 < q \<Longrightarrow> k \<le> ilog2 q \<longleftrightarrow> pow2 k \<le> q"
proof
  assume "0 < q" "k \<le> ilog2 q"
  then show "pow2 k \<le> q"
    using ilog2_bounds[of q] pow2_mono[of k "ilog2 q"] by linarith
next
  assume q: "0 < q" and "pow2 k \<le> q"
  then have "pow2 k < pow2 (ilog2 q + 1)" using ilog2_bounds[of q] by linarith
  then show "k \<le> ilog2 q" by (simp add: pow2_less_iff)
qed

lemma ilog2_less_iff: "0 < q \<Longrightarrow> ilog2 q < k \<longleftrightarrow> q < pow2 k"
  using ilog2_ge_iff[of q k] by (auto simp: not_le[symmetric])

lemma round_half_even_lower: "\<lfloor>x\<rfloor> \<le> round_half_even x"
  by (simp add: round_half_even_def Let_def)

lemma round_half_even_upper: "round_half_even x \<le> \<lfloor>x\<rfloor> + 1"
  by (simp add: round_half_even_def Let_def)

lemma round_half_even_ge: "of_int k \<le> x \<Longrightarrow> k \<le> round_half_even x"
proof -
  assume "of_int k \<le> x"
  then have "k \<le> \<lfloor>x\<rfloor>" by (simp add: le_floor_iff)
  with round_half_even_lower[of x] show ?thesis by linarith
qed

lemma round_half_even_le_half: "x < of_int k + 1 / 2 \<Longrightarrow> round_half_even x \<le> k"
proof -
  assume a: "x < of_int k + 1 / 2"
  then have "x < of_int (k + 1)" by simp
  then have "\<lfloor>x\<rfloor> < k + 1" by (simp only: floor_less_iff)
  then have f: "\<lfloor>x\<rfloor> \<le> k" by simp
  show ?thesis
  proof (cases "\<lfloor>x\<rfloor> = k")
    case True
    with a have "x - of_int \<lfloor>x\<rfloor> < 1 / 2" by simp
    then show ?thesis using True by (simp add: round_half_even_def Let_def)
  next
    case False
    with f have "\<lfloor>x\<rfloor> + 1 \<le> k" by simp
    with round_half_even_upper[of x] show ?thesis by linarith
  qed
qed

lemma round_half_even_le: "x \<le> of_int k \<Longrightarrow> round_half_even x \<le> k"
  by (rule round_half_even_le_half) simp

lemma ulp_exp_le:
  assumes "0 < a" and "a < pow2 k"
  shows "ulp_exp a \<le> max (k - 53) (- 1074)"
  using assms ilog2_less_iff[of a k] by (simp add: ulp_exp_def)

lemma ulp_exp_ge:
  assumes "0 < a" and "pow2 k \<le> a"
  shows "max (k - 52) (- 1074) \<le> ulp_exp a"
  using assms ilog2_ge_iff[of a k] by (simp add: ulp_exp_def)

lemma grid_point:
  assumes "p \<le> j"
  shows "of_int K * pow2 j = of_int (K * 2 ^ nat (j - p)) * pow2 p"
proof -
  have "pow2 j = pow2 (j - p) * pow2 p" by (simp add: pow2_add[symmetric])
  also have "pow2 (j - p) = of_int (2 ^ nat (j - p))" using assms by (simp add: pow2_of_int)
  finally show ?thesis by simp
qed

lemma round_pos_ge:
  assumes "ulp_exp a \<le> j" and "of_int K * pow2 j \<le> a"
  shows "of_int K * pow2 j \<le> round_pos a"
proof -
  define p where "p = ulp_exp a"
  define M where "M = K * 2 ^ nat (j - p)"
  have g: "of_int K * pow2 j = of_int M * pow2 p"
    unfolding M_def using assms(1) by (intro grid_point) (simp add: p_def)
  have "of_int M \<le> a / pow2 p"
    using assms(2) pow2_pos[of p] by (simp add: g pos_le_divide_eq)
  then have "M \<le> round_half_even (a / pow2 p)" by (rule round_half_even_ge)
  then have "(of_int M :: rat) \<le> of_int (round_half_even (a / pow2 p))" by simp
  then have "of_int M * pow2 p \<le> of_int (round_half_even (a / pow2 p)) * pow2 p"
    using pow2_pos[of p] by (simp add: mult_right_mono)
  then show ?thesis by (simp add: g round_pos_def p_def)
qed

lemma round_pos_le_half:
  assumes "ulp_exp a \<le> j" and "a < of_int K * pow2 j + pow2 (ulp_exp a - 1)"
  shows "round_pos a \<le> of_int K * pow2 j"
proof -
  define p where "p = ulp_exp a"
  define M where "M = K * 2 ^ nat (j - p)"
  have g: "of_int K * pow2 j = of_int M * pow2 p"
    unfolding M_def using assms(1) by (intro grid_point) (simp add: p_def)
  have "pow2 1 = 2" by (simp add: pow2_def)
  then have h: "pow2 (p - 1) = pow2 p / 2" by (simp only: pow2_diff)
  have "a < (of_int M + 1 / 2) * pow2 p"
    using assms(2) by (simp add: g p_def[symmetric] h algebra_simps)
  then have "a / pow2 p < of_int M + 1 / 2"
    using pow2_pos[of p] by (simp add: pos_divide_less_eq)
  then have "round_half_even (a / pow2 p) \<le> M" by (rule round_half_even_le_half)
  then have "(of_int (round_half_even (a / pow2 p)) :: rat) \<le> of_int M" by simp
  then have "of_int (round_half_even (a / pow2 p)) * pow2 p \<le> of_int M * pow2 p"
    using pow2_pos[of p] by (simp add: mult_right_mono)
  then show ?thesis by (simp add: g round_pos_def p_def)
qed

lemma round_pos_le:
  assumes "ulp_exp a \<le> j" and "a \<le> of_int K * pow2 j"
  shows "round_pos a \<le> of_int K * pow2 j"
  using assms pow2_pos[of "ulp_exp a - 1"] by (intro round_pos_le_half) simp_all

lemma round_pos_nonneg: "0 \<le> a \<Longrightarrow> 0 \<le> round_pos a"
proof -
  assume "0 \<le> a"
  then have "0 \<le> a / pow2 (ulp_exp a)" using pow2_pos[of "ulp_exp a"] by simp
  then have "0 \<le> round_half_even (a / pow2 (ulp_exp a))"
    using round_half_even_ge[of 0] by simp
  then show ?thesis using pow2_pos[of "ulp_exp a"] by (simp add: round_pos_def)
qed

lemma ilog2_zero: "ilog2 0 = - 2"
  by (simp add: ilog2_def pow2_def bitlen_alt_def)

lemma round_to_double_finite:
  assumes "0 < a" and "round_pos a < pow2 1024"
  shows "round_to_double a = Finite (round_pos a)"
proof (cases "round_pos a = 0")
  case True
  with assms show ?thesis by (simp add: round_to_double_def ilog2_zero)
next
  case False
  with round_pos_nonneg[of a] assms(1) have "0 < round_pos a" by simp
  with assms show ?thesis
    using ilog2_less_iff[of "round_pos a" 1024] by (simp add: round_to_double_def)
qed

lemma round_to_double_range:
  assumes "0 < a" and "a < pow2 k"
    and "max (k - 53) (- 1074) \<le> j1" and "max (k - 53) (- 1074) \<le> j2"
    and "of_int K1 * pow2 j1 \<le> a" and "a \<le> of_int K2 * pow2 j2"
    and "of_int K2 * pow2 j2 < pow2 1024"
  shows "round_to_double a = Finite (round_pos a)"
    and "of_int K1 * pow2 j1 \<le> round_pos a"
    and "round_pos a \<le> of_int K2 * pow2 j2"
proof -
  have u: "ulp_exp a \<le> j1" "ulp_exp a \<le> j2"
    using ulp_exp_le[OF assms(1,2)] assms(3,4) by linarith+
  show lo: "of_int K1 * pow2 j1 \<le> round_pos a" using u(1) assms(5) by (rule round_pos_ge)
  show hi: "round_pos a \<le> of_int K2 * pow2 j2" using u(2) assms(6) by (rule round_pos_le)
  from hi assms(7) have "round_pos a < pow2 1024" by linarith
  with assms(1) show "round_to_double a = Finite (round_pos a)" by (rule round_to_double_finite)
qed

lemma pow2_vals:
  "pow2 0 = 1" "pow2 (- 10) = 1 / 1024" "pow2 14 = 16384" "pow2 24 = 16777216"
  "pow2 10 = 1024" "pow2 9 = 512" "pow2 (- 1) = 1 / 2" "pow2 20 = 1048576"
  by (simp_all add: pow2_def)

lemma small_below_max: "x \<le> pow2 24 \<Longrightarrow> x < pow2 1024"
  using pow2_strict_mono[of 24 1024] by simp


lemma str_int_length:
  assumes "10 ^ k \<le> n" and "n < 10 ^ Suc k"
  shows "length (str_int n) = Suc k" and "\<forall>c \<in> set (str_int n). is_digit c"
proof -
  have "(0::int) < 10 ^ k" by simp
  with assms(1) have n0: "0 \<le> n" by linarith
  then show "length (str_int n) = Suc k"
    using length_str_digits[OF assms] by (simp add: str_int_def)
  show "\<forall>c \<in> set (str_int n). is_digit c"
    using str_int_digits[OF n0] by blast
qed

lemma trunc_bounds:
  assumes "of_int lo \<le> x" and "x < of_int hi" and "0 \<le> lo"
  shows "lo \<le> trunc x" and "trunc x < hi"
proof -
  have "(0::rat) \<le> of_int lo" using assms(3) by simp
  with assms(1) have "0 \<le> x" by linarith
  then have t: "trunc x = \<lfloor>x\<rfloor>" by (simp add: trunc_def)
  show "lo \<le> trunc x" using assms(1) by (simp add: t le_floor_iff)
  show "trunc x < hi" using assms(2) by (simp add: t floor_less_iff)
qed

text \<open>The product of a strike in [1000, 10239999/1024] with 1000, rounded.\<close>

lemma product_high:
  assumes "1000 \<le> r" and "r \<le> 10239999 / 1024"
  shows "round_to_double (r * 1000) = Finite (round_pos (r * 1000))"
    and "1000000 \<le> round_pos (r * 1000)" and "round_pos (r * 1000) < 10000000"
proof -
  define a where "a = r * 1000"
  have a0: "0 < a" using assms(1) by (simp add: a_def)
  have "a < pow2 24" using assms(2) by (simp add: a_def pow2_vals)
  note q = round_to_double_range[OF a0 this, of 0 "- 1" 1000000 19999999]
  have "round_to_double a = Finite (round_pos a)" "1000000 \<le> round_pos a"
    "round_pos a \<le> 19999999 / 2"
    using q assms small_below_max[of "19999999 / 2"] by (simp_all add: pow2_vals a_def)
  then show "round_to_double (r * 1000) = Finite (round_pos (r * 1000))"
    and "1000000 \<le> round_pos (r * 1000)" and "round_pos (r * 1000) < 10000000"
    by (simp_all add: a_def)
qed

text \<open>A binary64 number below 1000 that is the rounding of some \<open>q\<close> in [512, 1024).\<close>

lemma below_1000:
  assumes "512 \<le> q" and "q < 1024" and "round_pos q < 1000"
  shows "round_pos q \<le> 1000 - pow2 (- 43)"
proof -
  have q0: "0 < q" using assms(1) by simp
  have "9 \<le> ilog2 q" using assms(1) ilog2_ge_iff[OF q0, of 9] by (simp add: pow2_vals)
  moreover have "ilog2 q < 10" using assms(2) ilog2_less_iff[OF q0, of 10] by (simp add: pow2_vals)
  ultimately have u: "ulp_exp q = - 43" by (simp add: ulp_exp_def)
  define M where "M = round_half_even (q / pow2 (- 43))"
  have r: "round_pos q = of_int M * pow2 (- 43)" by (simp add: round_pos_def u M_def)
  have p: "pow2 (- 43) = 1 / 8796093022208" by (simp add: pow2_def)
  have "of_int M * pow2 (- 43) < 1000" using assms(3) by (simp add: r)
  then have "(of_int M :: rat) < of_int 8796093022208000" by (simp add: p)
  then have "M < 8796093022208000" by (simp only: of_int_less_iff)
  then have "M \<le> 8796093022207999" by simp
  then have "(of_int M :: rat) \<le> of_int 8796093022207999" by (simp only: of_int_le_iff)
  then show ?thesis by (simp add: r p)
qed

lemma product_low:
  assumes "0 < q" and "q < pow2 14" and "100 \<le> round_pos q" and "round_pos q < 1000"
  shows "round_to_double (round_pos q * 1000) = Finite (round_pos (round_pos q * 1000))"
    and "100000 \<le> round_pos (round_pos q * 1000)"
    and "round_pos (round_pos q * 1000) < 1000000"
proof -
  define r where "r = round_pos q"
  define a where "a = r * 1000"
  have a0: "0 < a" using assms(3) by (simp add: a_def r_def)
  have a20: "a < pow2 20" using assms(4) by (simp add: a_def r_def pow2_vals)
  have uq: "ulp_exp q \<le> 0" using ulp_exp_le[OF assms(1,2)] by simp
  have ua: "ulp_exp a \<le> - 33" using ulp_exp_le[OF a0 a20] by simp
  have lo: "100000 \<le> round_pos a"
    using round_pos_ge[of a 0 100000] ua assms(3) by (simp add: pow2_vals a_def r_def)
  have hi: "round_pos a < 1000000"
  proof (cases "q < 512")
    case True
    have "r \<le> 512" using round_pos_le[of q 0 512] uq True by (simp add: pow2_vals r_def)
    then have "a \<le> 512000" by (simp add: a_def)
    then have "round_pos a \<le> 512000"
      using round_pos_le[of a 0 512000] ua by (simp add: pow2_vals)
    then show ?thesis by simp
  next
    case False
    have q1024: "q < 1024"
    proof (rule ccontr)
      assume "\<not> q < 1024"
      then have "1024 \<le> round_pos q"
        using round_pos_ge[of q 0 1024] uq by (simp add: pow2_vals)
      with assms(4) show False by simp
    qed
    have "r \<le> 1000 - pow2 (- 43)"
      using below_1000[of q] False q1024 assms(4) by (simp add: r_def)
    then have ab: "a \<le> 1000000 - 1000 * pow2 (- 43)" by (simp add: a_def)
    have "512 \<le> r" using round_pos_ge[of q 0 512] uq False by (simp add: pow2_vals r_def)
    then have "pow2 18 \<le> a" by (simp add: a_def pow2_def)
    from ulp_exp_ge[OF a0 this] have "- 35 \<le> ulp_exp a - 1" by simp
    then have h: "pow2 (- 35) \<le> pow2 (ulp_exp a - 1)" by (rule pow2_mono)
    have p43: "pow2 (- 43) = 1 / 8796093022208" and p35: "pow2 (- 35) = 1 / 34359738368"
      and p33: "pow2 (- 33) = 1 / 8589934592" by (simp_all add: pow2_def)
    have "a < of_int 8589934591999999 * pow2 (- 33) + pow2 (- 35)"
      using ab by (simp add: p43 p35 p33)
    with h have "a < of_int 8589934591999999 * pow2 (- 33) + pow2 (ulp_exp a - 1)" by linarith
    with ua have "round_pos a \<le> of_int 8589934591999999 * pow2 (- 33)"
      by (intro round_pos_le_half) simp_all
    then show ?thesis by (simp add: p33)
  qed
  from hi have "round_pos a < pow2 1024" using small_below_max[of "round_pos a"]
    by (simp add: pow2_vals)
  with a0 have "round_to_double a = Finite (round_pos a)" by (rule round_to_double_finite)
  with lo hi show "round_to_double (round_pos q * 1000) = Finite (round_pos (round_pos q * 1000))"
    and "100000 \<le> round_pos (round_pos q * 1000)"
    and "round_pos (round_pos q * 1000) < 1000000"
    by (simp_all add: a_def r_def)
qed

lemma init_strike_price_eight:
  assumes "parse_float_literal s = Some (LNum q)" and "100 \<le> q" and "q \<le> 9999999 / 1000"
  shows "\<exists>sp. init_strike_price s = Inr sp \<and> length sp = 8 \<and> (\<forall>c \<in> set sp. is_digit c)"
proof -
  have q0: "0 < q" using assms(2) by simp
  have q14: "q < pow2 14" using assms(3) by (simp add: pow2_vals)
  note r = round_to_double_range[OF q0 q14, of 0 "- 10" 100 10239999]
  have r1: "round_to_double q = Finite (round_pos q)"
    and r2: "100 \<le> round_pos q" and r3: "round_pos q \<le> 10239999 / 1024"
    using r assms(2,3) small_below_max[of "10239999 / 1024"] by (simp_all add: pow2_vals)
  have f: "float_of_string s = Some (Finite (round_pos q))"
    by (simp add: float_of_string_def assms(1) literal_value_def r1)
  have nle: "\<not> float_le_int (Finite (round_pos q)) 0"
    using r2 by (simp add: float_le_int_def)
  have z: "is_digit CHR ''0''" by (simp add: is_digit_def)
  show ?thesis
  proof (cases "round_pos q < 1000")
    case True
    note p = product_low[OF q0 q14 r2 True]
    define n where "n = trunc (round_pos (round_pos q * 1000))"
    have "10 ^ 5 \<le> n" "n < 10 ^ Suc 5"
      using trunc_bounds[of 100000 "round_pos (round_pos q * 1000)" 1000000] p(2,3)
      by (simp_all add: n_def)
    from str_int_length[OF this] have l: "length (str_int n) = 6"
      and d: "\<forall>c \<in> set (str_int n). is_digit c" by simp_all
    have "init_strike_price s = Inr (''00'' @ str_int n)"
      using True
      by (simp add: init_strike_price_def f nle float_less_int_def float_mul_int_def p(1)
          int_of_float_def n_def)
    with l d z show ?thesis by simp
  next
    case False
    then have "1000 \<le> round_pos q" by simp
    note p = product_high[OF this r3]
    define n where "n = trunc (round_pos (round_pos q * 1000))"
    have "10 ^ 6 \<le> n" "n < 10 ^ Suc 6"
      using trunc_bounds[of 1000000 "round_pos (round_pos q * 1000)" 10000000] p(2,3)
      by (simp_all add: n_def)
    from str_int_length[OF this] have l: "length (str_int n) = 7"
      and d: "\<forall>c \<in> set (str_int n). is_digit c" by simp_all
    have "init_strike_price s = Inr (''0'' @ str_int n)"
      using False
      by (simp add: init_strike_price_def f nle float_less_int_def float_mul_int_def p(1)
          int_of_float_def n_def)
    with l d z show ?thesis by simp
  qed
qed









lemma int_of_digits_snoc: "int_of_digits (s @ [c]) = 10 * int_of_digits s + digit_value c"
  by (simp add: int_of_digits_def)

lemma int_of_digits_nonneg: "\<forall>c \<in> set s. is_digit c \<Longrightarrow> 0 \<le> int_of_digits s"
proof (induction s rule: rev_induct)
  case Nil
  then show ?case by (simp add: int_of_digits_def)
next
  case (snoc x xs)
  then show ?case using digit_value_range[of x] by (simp add: int_of_digits_snoc)
qed







lemma strike_500: "init_strike_price ''500'' = Inr ''00500000''" by code_simp
lemma strike_50: "init_strike_price ''50'' = Inr ''0050000''" by code_simp
lemma date_240420: "parse_expiration_date ''240420'' = Inr \<lparr>year = 2024, month = 4, day = 20\<rparr>" by code_simp
lemma date_991301: "parse_expiration_date ''991301'' = Inl InvalidDateFormat" by code_simp
lemma date_2441: "parse_expiration_date ''2441'' = Inr \<lparr>year = 2024, month = 4, day = 1\<rparr>" by code_simp

lemma init_QQQ:
  "OptionSymbol_init ''QQQ'' (ExpStr ''240420'') ''P'' ''500'' =
     Inr \<lparr>underlying_symbol = ''QQQ'', contract_type = ''P'',
          expiration_date = \<lparr>year = 2024, month = 4, day = 20\<rparr>, strike_price = ''00500000''\<rparr>"
  by (simp add: OptionSymbol_init_def init_contract_type_cases init_expiration_date_def
      date_240420 strike_500)

lemma build_QQQ:
  "build \<lparr>underlying_symbol = ''QQQ'', contract_type = ''P'',
          expiration_date = \<lparr>year = 2024, month = 4, day = 20\<rparr>, strike_price = ''00500000''\<rparr>
   = ''QQQ  240420P00500000''"
  by (simp add: build_def strftime_ymd_def two_digits_def digit_char_def)

lemma parse_build_QQQ: "parse_symbol ''QQQ  240420P00500000'' = Inl MissingUnderscore"
  by (rule parse_symbol_no_underscore) simp





subsection \<open>More values computed by the model\<close>

lemma lit_500: "parse_float_literal ''500'' = Some (LNum 500)" by code_simp
lemma lit_50: "parse_float_literal ''50'' = Some (LNum 50)" by code_simp

lemma init_QQQ_50:
  "OptionSymbol_init ''QQQ'' (ExpStr ''240420'') ''P'' ''50'' =
     Inr \<lparr>underlying_symbol = ''QQQ'', contract_type = ''P'',
          expiration_date = \<lparr>year = 2024, month = 4, day = 20\<rparr>,
          strike_price = ''0050000''\<rparr>"
  by (simp add: OptionSymbol_init_def init_contract_type_cases init_expiration_date_def
      date_240420 strike_50)

lemma date_240420C5: "parse_expiration_date ''240420C5'' = Inl InvalidDateFormat" by code_simp

lemma init_QQQ_date_P:
  "OptionSymbol_init ''QQQ'' (ExpDate \<lparr>year = 2024, month = 4, day = 20\<rparr>) ''P'' ''500'' =
     Inr \<lparr>underlying_symbol = ''QQQ'', contract_type = ''P'',
          expiration_date = \<lparr>year = 2024, month = 4, day = 20\<rparr>,
          strike_price = ''00500000''\<rparr>"
  by (simp add: OptionSymbol_init_def init_contract_type_cases init_expiration_date_def
      strike_500)

lemma init_QQQ_date_C:
  "OptionSymbol_init ''QQQ'' (ExpDate \<lparr>year = 2024, month = 4, day = 20\<rparr>) ''C'' ''500'' =
     Inr \<lparr>underlying_symbol = ''QQQ'', contract_type = ''C'',
          expiration_date = \<lparr>year = 2024, month = 4, day = 20\<rparr>,
          strike_price = ''00500000''\<rparr>"
  by (simp add: OptionSymbol_init_def init_contract_type_cases init_expiration_date_def
      strike_500)



lemmas builder_defs =
  chain_def base_builder_def new_OrderBuilder_def set_session_def set_duration_def set_order_type_def
  set_price_def set_quantity_def set_complex_order_strategy_type_def
  set_order_strategy_type_def add_option_leg_def

lemmas single_recipe_defs =
  option_buy_to_open_market_def option_buy_to_open_limit_def
  option_sell_to_open_market_def option_sell_to_open_limit_def
  option_buy_to_close_market_def option_buy_to_close_limit_def
  option_sell_to_close_market_def option_sell_to_close_limit_def

lemmas vertical_recipe_defs =
  bull_call_vertical_open_def bull_call_vertical_close_def
  bear_call_vertical_open_def bear_call_vertical_close_def
  bull_put_vertical_open_def bull_put_vertical_close_def
  bear_put_vertical_open_def bear_put_vertical_close_def

section \<open>Properties of the option symbol codec\<close>

text \<open>
  Claim C1, as amended. Every OptionSymbol that passes construction validation is formatted
  by \<^verbatim>\<open>build\<close> as underlying, two blanks, YYMMDD, the contract type tag and the encoded
  strike field, where the tag is C or P and the date and the strike field are what the
  constructor made of its arguments. \<^verbatim>\<open>parse_symbol\<close> does not read that string back: the
  decode grammar wants an underscore, so for an underlying without underscore it fails
  with the InvalidSymbolFormat error "missing underscore". (In this second part the date
  argument is a string or a date object Python can hold.)
\<close>

theorem build_not_parsable:
  assumes "OptionSymbol_init u e t s = Inr self"
  shows "build self = u @ ''  '' @ strftime_ymd (expiration_date self)
                       @ contract_type self @ strike_price self
         \<and> (contract_type self = ''C'' \<or> contract_type self = ''P'')
         \<and> init_contract_type t = Inr (contract_type self)
         \<and> init_expiration_date e = Inr (expiration_date self)
         \<and> init_strike_price s = Inr (strike_price self)
         \<and> (valid_expiration e \<and> CHR ''_'' \<notin> set u \<longrightarrow>
              parse_symbol (build self) = Inl MissingUnderscore)"
proof -
  note f = init_fields[OF assms]
  have b: "build self = u @ ''  '' @ strftime_ymd (expiration_date self)
                       @ contract_type self @ strike_price self"
    by (simp add: build_def f(1))
  have t: "init_contract_type t = Inr (contract_type self)"
    using assms by (auto simp: OptionSymbol_init_def split: sum.splits)
  have p: "parse_symbol (build self) = Inl MissingUnderscore"
    if v: "valid_expiration e" and u: "CHR ''_'' \<notin> set u"
  proof -
    have d: "valid_date (year (expiration_date self)) (month (expiration_date self))
               (day (expiration_date self))"
      using init_expiration_date_valid[OF f(3) v] .
    have 1: "CHR ''_'' \<notin> set (strftime_ymd (expiration_date self))"
      using strftime_ymd_digits[OF d] underscore_not_digit by blast
    have 2: "CHR ''_'' \<notin> set (contract_type self)" using f(2) by auto
    have 3: "CHR ''_'' \<notin> set (strike_price self)"
      using init_strike_price_chars[OF f(4)] underscore_not_digit by blast
    have "CHR ''_'' \<notin> set (build self)"
      unfolding b using u 1 2 3 by simp
    then have "count_list (build self) CHR ''_'' = 0"
      by (simp add: count_list_0_iff)
    then show ?thesis
      by (intro parse_symbol_no_underscore) simp
  qed
  from b t f(2,3,4) p show ?thesis by blast
qed

text \<open>The theorem of claim C1 at the docstring's example, the QQQ put of 20 April 2024.\<close>

theorem build_not_parsable_witness:
  "valid_expiration (ExpStr ''240420'')
   \<and> CHR ''_'' \<notin> set ''QQQ''
   \<and> OptionSymbol_init ''QQQ'' (ExpStr ''240420'') ''P'' ''500'' = Inr \<lparr>underlying_symbol = ''QQQ'', contract_type = ''P'',
          expiration_date = \<lparr>year = 2024, month = 4, day = 20\<rparr>,
          strike_price = ''00500000''\<rparr>
   \<and> build \<lparr>underlying_symbol = ''QQQ'', contract_type = ''P'',
          expiration_date = \<lparr>year = 2024, month = 4, day = 20\<rparr>,
          strike_price = ''00500000''\<rparr> = ''QQQ  240420P00500000''
   \<and> parse_symbol (build \<lparr>underlying_symbol = ''QQQ'', contract_type = ''P'',
          expiration_date = \<lparr>year = 2024, month = 4, day = 20\<rparr>,
          strike_price = ''00500000''\<rparr>) = Inl MissingUnderscore"
proof -
  have v: "valid_expiration (ExpStr ''240420'')" by (simp add: valid_expiration_def)
  have u: "CHR ''_'' \<notin> set ''QQQ''" by simp
  from build_not_parsable[OF init_QQQ] v u
  have "parse_symbol (build \<lparr>underlying_symbol = ''QQQ'', contract_type = ''P'',
          expiration_date = \<lparr>year = 2024, month = 4, day = 20\<rparr>,
          strike_price = ''00500000''\<rparr>) = Inl MissingUnderscore"
    by blast
  then show ?thesis
    using v init_QQQ build_QQQ by simp
qed

text \<open>
  Claim C1 as stated fails: the QQQ put passes construction, and parsing what \<^verbatim>\<open>build\<close>
  returns for it raises instead of giving the symbol back.
\<close>

theorem build_parse_counterexample:
  "OptionSymbol_init ''QQQ'' (ExpStr ''240420'') ''P'' ''500'' = Inr \<lparr>underlying_symbol = ''QQQ'', contract_type = ''P'',
          expiration_date = \<lparr>year = 2024, month = 4, day = 20\<rparr>,
          strike_price = ''00500000''\<rparr>
   \<and> parse_symbol (build \<lparr>underlying_symbol = ''QQQ'', contract_type = ''P'',
          expiration_date = \<lparr>year = 2024, month = 4, day = 20\<rparr>,
          strike_price = ''00500000''\<rparr>) = Inl MissingUnderscore"
  by (simp add: init_QQQ build_QQQ parse_build_QQQ)

text \<open>
  Claim C2, as amended. For every strike string whose numeric value S satisfies
  100 \<le> S \<le> 9999.999, the strike stage of the constructor succeeds and the encoded strike
  field consists of exactly 8 digits; it is the field of every OptionSymbol constructed
  from that string.
\<close>

theorem strike_field_eight_digits:
  assumes "parse_float_literal s = Some (LNum q)" and "100 \<le> q" and "q \<le> 9999999 / 1000"
  shows "\<exists>sp. init_strike_price s = Inr sp \<and> length sp = 8 \<and> list_all is_digit sp
              \<and> (\<forall>u e t self. OptionSymbol_init u e t s = Inr self \<longrightarrow> strike_price self = sp)"
proof -
  from init_strike_price_eight[OF assms] obtain sp where
    sp: "init_strike_price s = Inr sp" "length sp = 8" "\<forall>c \<in> set sp. is_digit c" by blast
  have "OptionSymbol_init u e t s = Inr self \<Longrightarrow> strike_price self = sp" for u e t self
    using init_fields(4)[of u e t s self] sp(1) by simp
  with sp show ?thesis by (auto simp: list_all_iff)
qed

text \<open>The theorem of claim C2 at the strike 500.\<close>

theorem strike_field_eight_digits_witness:
  "parse_float_literal ''500'' = Some (LNum 500)
   \<and> (100::rat) \<le> 500 \<and> (500::rat) \<le> 9999999 / 1000
   \<and> init_strike_price ''500'' = Inr ''00500000''
   \<and> (\<exists>sp. init_strike_price ''500'' = Inr sp \<and> length sp = 8 \<and> list_all is_digit sp)"
proof -
  have a: "(100::rat) \<le> 500" and b: "(500::rat) \<le> 9999999 / 1000" by simp_all
  from strike_field_eight_digits[OF lit_500 a b] show ?thesis
    using lit_500 strike_500 by auto
qed

text \<open>
  Claim C2 as stated fails below 100: the strike 50 lies in (0, 9999.999], and its encoded
  field has 7 characters.
\<close>

theorem strike_field_counterexample:
  "parse_float_literal ''50'' = Some (LNum 50)
   \<and> (0::rat) < 50 \<and> (50::rat) \<le> 9999999 / 1000
   \<and> OptionSymbol_init ''QQQ'' (ExpStr ''240420'') ''P'' ''50'' = Inr \<lparr>underlying_symbol = ''QQQ'', contract_type = ''P'',
          expiration_date = \<lparr>year = 2024, month = 4, day = 20\<rparr>,
          strike_price = ''0050000''\<rparr>
   \<and> length (strike_price \<lparr>underlying_symbol = ''QQQ'', contract_type = ''P'',
          expiration_date = \<lparr>year = 2024, month = 4, day = 20\<rparr>,
          strike_price = ''0050000''\<rparr>) = 7"
  by (simp add: lit_50 init_QQQ_50)



text \<open>
  Claim C4, where the code departs from it. A strict six-character string parses to its
  date ("240420" is 20 April 2024) and "991301" fails with the InvalidDateFormat error,
  as claimed. But "2441" has four characters and parses to 1 April 2024: the month and day
  patterns of \<^verbatim>\<open>strptime\<close> also take a single digit.
\<close>

theorem date_parsing_lenient:
  "parse_expiration_date ''240420'' = Inr \<lparr>year = 2024, month = 4, day = 20\<rparr>
   \<and> parse_expiration_date ''991301'' = Inl InvalidDateFormat
   \<and> parse_expiration_date ''2441'' = Inr \<lparr>year = 2024, month = 4, day = 1\<rparr>"
  by (simp add: date_240420 date_991301 date_2441)





text \<open>
  Claim C8. \<^verbatim>\<open>parse_symbol\<close> fails with an InvalidSymbolFormat error exactly when the
  input does not have exactly one underscore, or the remainder after the underscore splits
  neither on P nor on C into exactly two pieces; the first case gives the "missing
  underscore" error and the second the error of the contract type. The split on P is
  tried first: when it gives two pieces, the result is what the date parser and the
  constructor make of these pieces with contract type P, whatever the split on C gives.
  Only when the split on P does not give two pieces and the split on C does, the result is
  what they make of the pieces of the split on C, with contract type C. So a symbol that is
  returned is a put in the first case and a call in the second. (For one underscore, the
  remainder is what follows it.)
\<close>

theorem parse_symbol_format_errors:
  "((\<exists>e. parse_symbol s = Inl e \<and> InvalidSymbolFormat e) \<longleftrightarrow>
      (count_list s CHR ''_'' \<noteq> 1
       \<or> (length (split CHR ''P'' (split CHR ''_'' s ! 1)) \<noteq> 2
          \<and> length (split CHR ''C'' (split CHR ''_'' s ! 1)) \<noteq> 2)))
   \<and> (count_list s CHR ''_'' \<noteq> 1 \<longrightarrow> parse_symbol s = Inl MissingUnderscore)
   \<and> (count_list s CHR ''_'' = 1
        \<and> length (split CHR ''P'' (split CHR ''_'' s ! 1)) = 2 \<longrightarrow>
        parse_symbol s =
          (case parse_expiration_date (split CHR ''P'' (split CHR ''_'' s ! 1) ! 0) of
             Inl e \<Rightarrow> Inl e
           | Inr d \<Rightarrow> OptionSymbol_init (split CHR ''_'' s ! 0) (ExpDate d) ''P''
                       (split CHR ''P'' (split CHR ''_'' s ! 1) ! 1)))
   \<and> (count_list s CHR ''_'' = 1
        \<and> length (split CHR ''P'' (split CHR ''_'' s ! 1)) \<noteq> 2
        \<and> length (split CHR ''C'' (split CHR ''_'' s ! 1)) = 2 \<longrightarrow>
        parse_symbol s =
          (case parse_expiration_date (split CHR ''C'' (split CHR ''_'' s ! 1) ! 0) of
             Inl e \<Rightarrow> Inl e
           | Inr d \<Rightarrow> OptionSymbol_init (split CHR ''_'' s ! 0) (ExpDate d) ''C''
                       (split CHR ''C'' (split CHR ''_'' s ! 1) ! 1)))
   \<and> (count_list s CHR ''_'' = 1
        \<and> length (split CHR ''P'' (split CHR ''_'' s ! 1)) \<noteq> 2
        \<and> length (split CHR ''C'' (split CHR ''_'' s ! 1)) \<noteq> 2 \<longrightarrow>
        parse_symbol s = Inl MissingContractType)
   \<and> (\<forall>self. parse_symbol s = Inr self \<longrightarrow>
         (length (split CHR ''P'' (split CHR ''_'' s ! 1)) = 2 \<longrightarrow> contract_type self = ''P'')
       \<and> (length (split CHR ''P'' (split CHR ''_'' s ! 1)) \<noteq> 2 \<longrightarrow>
            length (split CHR ''C'' (split CHR ''_'' s ! 1)) = 2 \<and> contract_type self = ''C''))
   \<and> (\<forall>u rest. s = u @ CHR ''_'' # rest \<and> CHR ''_'' \<notin> set u \<and> CHR ''_'' \<notin> set rest \<longrightarrow>
         split CHR ''_'' s = [u, rest])"
proof -
  let ?rest = "split CHR ''_'' s ! 1"
  let ?P = "length (split CHR ''P'' ?rest) = 2"
  let ?C = "length (split CHR ''C'' ?rest) = 2"
  consider (none) "count_list s CHR ''_'' \<noteq> 1"
    | (p) "count_list s CHR ''_'' = 1" "?P"
    | (c) "count_list s CHR ''_'' = 1" "\<not> ?P" "?C"
    | (neither) "count_list s CHR ''_'' = 1" "\<not> ?P" "\<not> ?C"
    by blast
  then have main:
    "((\<exists>e. parse_symbol s = Inl e \<and> InvalidSymbolFormat e) \<longleftrightarrow>
        (count_list s CHR ''_'' \<noteq> 1 \<or> (\<not> ?P \<and> \<not> ?C)))
     \<and> (\<forall>self. parse_symbol s = Inr self \<longrightarrow>
           (?P \<longrightarrow> contract_type self = ''P'')
         \<and> (\<not> ?P \<longrightarrow> ?C \<and> contract_type self = ''C''))"
  proof cases
    case none
    then show ?thesis
      by (simp add: parse_symbol_no_underscore InvalidSymbolFormat_def)
  next
    case p
    show ?thesis
      unfolding parse_symbol_P[OF p]
      using p
      by (auto split: sum.splits dest: init_contract_type_P
          parse_expiration_date_not_format_error init_from_parse_not_format_error)
  next
    case c
    show ?thesis
      unfolding parse_symbol_C[OF c]
      using c
      by (auto split: sum.splits dest: init_contract_type_C
          parse_expiration_date_not_format_error init_from_parse_not_format_error)
  next
    case neither
    then show ?thesis
      by (simp add: parse_symbol_neither InvalidSymbolFormat_def)
  qed
  have sp: "\<forall>u rest. s = u @ CHR ''_'' # rest \<and> CHR ''_'' \<notin> set u \<and> CHR ''_'' \<notin> set rest \<longrightarrow>
         split CHR ''_'' s = [u, rest]"
    by (simp add: split_one_sep)
  have e0: "count_list s CHR ''_'' \<noteq> 1 \<longrightarrow> parse_symbol s = Inl MissingUnderscore"
    by (simp add: parse_symbol_no_underscore)
  have e1: "count_list s CHR ''_'' = 1 \<and> ?P \<longrightarrow>
        parse_symbol s =
          (case parse_expiration_date (split CHR ''P'' ?rest ! 0) of
             Inl e \<Rightarrow> Inl e
           | Inr d \<Rightarrow> OptionSymbol_init (split CHR ''_'' s ! 0) (ExpDate d) ''P''
                       (split CHR ''P'' ?rest ! 1))"
    using parse_symbol_P[of s] by blast
  have e2: "count_list s CHR ''_'' = 1 \<and> \<not> ?P \<and> ?C \<longrightarrow>
        parse_symbol s =
          (case parse_expiration_date (split CHR ''C'' ?rest ! 0) of
             Inl e \<Rightarrow> Inl e
           | Inr d \<Rightarrow> OptionSymbol_init (split CHR ''_'' s ! 0) (ExpDate d) ''C''
                       (split CHR ''C'' ?rest ! 1))"
    using parse_symbol_C[of s] by blast
  have e3: "count_list s CHR ''_'' = 1 \<and> \<not> ?P \<and> \<not> ?C \<longrightarrow>
        parse_symbol s = Inl MissingContractType"
    using parse_symbol_neither[of s] by blast
  from main sp e0 e1 e2 e3 show ?thesis by (intro conjI) (elim conjE; assumption)+
qed

text \<open>
  The theorem of claim C8 at a put and a call that parse, at a symbol whose remainder
  splits both on P and on C, where the split on P decides and the date "240420C5" is
  refused, and at a symbol without underscore.
\<close>

theorem parse_symbol_format_errors_witness:
  "count_list ''QQQ_240420P500'' CHR ''_'' = 1
   \<and> split CHR ''_'' ''QQQ_240420P500'' = [''QQQ'', ''240420P500'']
   \<and> length (split CHR ''P'' ''240420P500'') = 2
   \<and> \<not> (\<exists>e. parse_symbol ''QQQ_240420P500'' = Inl e \<and> InvalidSymbolFormat e)
   \<and> parse_symbol ''QQQ_240420P500'' = Inr \<lparr>underlying_symbol = ''QQQ'', contract_type = ''P'',
          expiration_date = \<lparr>year = 2024, month = 4, day = 20\<rparr>,
          strike_price = ''00500000''\<rparr>
   \<and> length (split CHR ''P'' ''240420C500'') = 1
   \<and> length (split CHR ''C'' ''240420C500'') = 2
   \<and> parse_symbol ''QQQ_240420C500'' = Inr \<lparr>underlying_symbol = ''QQQ'', contract_type = ''C'',
          expiration_date = \<lparr>year = 2024, month = 4, day = 20\<rparr>,
          strike_price = ''00500000''\<rparr>
   \<and> split CHR ''P'' ''240420C5P0'' = [''240420C5'', ''0'']
   \<and> split CHR ''C'' ''240420C5P0'' = [''240420'', ''5P0'']
   \<and> parse_symbol ''QQQ_240420C5P0'' = Inl InvalidDateFormat
   \<and> count_list ''QQQ240420P500'' CHR ''_'' = 0
   \<and> parse_symbol ''QQQ240420P500'' = Inl MissingUnderscore
   \<and> (\<exists>e. parse_symbol ''QQQ240420P500'' = Inl e \<and> InvalidSymbolFormat e)"
proof -
  have 1: "count_list ''QQQ_240420P500'' CHR ''_'' = 1" by simp
  have 2: "split CHR ''_'' ''QQQ_240420P500'' = [''QQQ'', ''240420P500'']" by simp
  have 3: "split CHR ''P'' ''240420P500'' = [''240420'', ''500'']" by simp
  have 4: "count_list ''QQQ240420P500'' CHR ''_'' = 0" by simp
  from parse_symbol_format_errors[of "''QQQ_240420P500''"]
  have 5: "\<not> (\<exists>e. parse_symbol ''QQQ_240420P500'' = Inl e \<and> InvalidSymbolFormat e)"
    and 6: "parse_symbol ''QQQ_240420P500'' = Inr \<lparr>underlying_symbol = ''QQQ'', contract_type = ''P'',
          expiration_date = \<lparr>year = 2024, month = 4, day = 20\<rparr>,
          strike_price = ''00500000''\<rparr>"
    unfolding 1 2 by (simp_all add: 3 date_240420 init_QQQ_date_P)
  have c1: "count_list ''QQQ_240420C500'' CHR ''_'' = 1" by simp
  have c2: "split CHR ''_'' ''QQQ_240420C500'' = [''QQQ'', ''240420C500'']" by simp
  have c3: "split CHR ''P'' ''240420C500'' = [''240420C500'']" by simp
  have c4: "split CHR ''C'' ''240420C500'' = [''240420'', ''500'']" by simp
  from parse_symbol_format_errors[of "''QQQ_240420C500''"]
  have 7: "parse_symbol ''QQQ_240420C500'' = Inr \<lparr>underlying_symbol = ''QQQ'', contract_type = ''C'',
          expiration_date = \<lparr>year = 2024, month = 4, day = 20\<rparr>,
          strike_price = ''00500000''\<rparr>"
    unfolding c1 c2 by (simp add: c3 c4 date_240420 init_QQQ_date_C)
  have b1: "count_list ''QQQ_240420C5P0'' CHR ''_'' = 1" by simp
  have b2: "split CHR ''_'' ''QQQ_240420C5P0'' = [''QQQ'', ''240420C5P0'']" by simp
  have b3: "split CHR ''P'' ''240420C5P0'' = [''240420C5'', ''0'']" by simp
  have b4: "split CHR ''C'' ''240420C5P0'' = [''240420'', ''5P0'']" by simp
  from parse_symbol_format_errors[of "''QQQ_240420C5P0''"]
  have 8: "parse_symbol ''QQQ_240420C5P0'' = Inl InvalidDateFormat"
    unfolding b1 b2 by (simp add: b3 date_240420C5)
  from parse_symbol_format_errors[of "''QQQ240420P500''"]
  have 9: "parse_symbol ''QQQ240420P500'' = Inl MissingUnderscore"
    and 10: "\<exists>e. parse_symbol ''QQQ240420P500'' = Inl e \<and> InvalidSymbolFormat e"
    unfolding 4 by (simp_all add: InvalidSymbolFormat_def)
  from 1 2 3 4 5 6 7 8 9 10 b3 b4 c3 c4 show ?thesis by simp
qed

section \<open>Properties of the recipes\<close>

text \<open>
  Claim C6. Each of the eight vertical-spread recipes returns a builder whose order type is
  the NET_DEBIT or NET_CREDIT of its row in the spec's table, whose complex order strategy
  type is VERTICAL, and whose legs are exactly the row's two legs, in the row's order, on the
  two symbol arguments, both with the caller's quantity.
\<close>

theorem vertical_recipes_follow_table:
  fixes s1 s2 :: string and q :: 'q and p :: 'p
  shows
    "ob_order_type (bull_call_vertical_open s1 s2 q p :: ('q, 'p) OrderBuilder) = Some NET_DEBIT
     \<and> ob_complex_order_strategy_type (bull_call_vertical_open s1 s2 q p :: ('q, 'p) OrderBuilder) = Some VERTICAL
     \<and> ob_legs (bull_call_vertical_open s1 s2 q p :: ('q, 'p) OrderBuilder) = [leg BUY_TO_OPEN s1 q, leg SELL_TO_OPEN s2 q]
     \<and> ob_order_type (bull_call_vertical_close s1 s2 q p :: ('q, 'p) OrderBuilder) = Some NET_CREDIT
     \<and> ob_complex_order_strategy_type (bull_call_vertical_close s1 s2 q p :: ('q, 'p) OrderBuilder) = Some VERTICAL
     \<and> ob_legs (bull_call_vertical_close s1 s2 q p :: ('q, 'p) OrderBuilder) = [leg SELL_TO_CLOSE s1 q, leg BUY_TO_CLOSE s2 q]
     \<and> ob_order_type (bear_call_vertical_open s1 s2 q p :: ('q, 'p) OrderBuilder) = Some NET_CREDIT
     \<and> ob_complex_order_strategy_type (bear_call_vertical_open s1 s2 q p :: ('q, 'p) OrderBuilder) = Some VERTICAL
     \<and> ob_legs (bear_call_vertical_open s1 s2 q p :: ('q, 'p) OrderBuilder) = [leg SELL_TO_OPEN s1 q, leg BUY_TO_OPEN s2 q]
     \<and> ob_order_type (bear_call_vertical_close s1 s2 q p :: ('q, 'p) OrderBuilder) = Some NET_DEBIT
     \<and> ob_complex_order_strategy_type (bear_call_vertical_close s1 s2 q p :: ('q, 'p) OrderBuilder) = Some VERTICAL
     \<and> ob_legs (bear_call_vertical_close s1 s2 q p :: ('q, 'p) OrderBuilder) = [leg BUY_TO_CLOSE s1 q, leg SELL_TO_CLOSE s2 q]
     \<and> ob_order_type (bull_put_vertical_open s1 s2 q p :: ('q, 'p) OrderBuilder) = Some NET_CREDIT
     \<and> ob_complex_order_strategy_type (bull_put_vertical_open s1 s2 q p :: ('q, 'p) OrderBuilder) = Some VERTICAL
     \<and> ob_legs (bull_put_vertical_open s1 s2 q p :: ('q, 'p) OrderBuilder) = [leg BUY_TO_OPEN s1 q, leg SELL_TO_OPEN s2 q]
     \<and> ob_order_type (bull_put_vertical_close s1 s2 q p :: ('q, 'p) OrderBuilder) = Some NET_DEBIT
     \<and> ob_complex_order_strategy_type (bull_put_vertical_close s1 s2 q p :: ('q, 'p) OrderBuilder) = Some VERTICAL
     \<and> ob_legs (bull_put_vertical_close s1 s2 q p :: ('q, 'p) OrderBuilder) = [leg SELL_TO_CLOSE s1 q, leg BUY_TO_CLOSE s2 q]
     \<and> ob_order_type (bear_put_vertical_open s1 s2 q p :: ('q, 'p) OrderBuilder) = Some NET_DEBIT
     \<and> ob_complex_order_strategy_type (bear_put_vertical_open s1 s2 q p :: ('q, 'p) OrderBuilder) = Some VERTICAL
     \<and> ob_legs (bear_put_vertical_open s1 s2 q p :: ('q, 'p) OrderBuilder) = [leg SELL_TO_OPEN s1 q, leg BUY_TO_OPEN s2 q]
     \<and> ob_order_type (bear_put_vertical_close s1 s2 q p :: ('q, 'p) OrderBuilder) = Some NET_CREDIT
     \<and> ob_complex_order_strategy_type (bear_put_vertical_close s1 s2 q p :: ('q, 'p) OrderBuilder) = Some VERTICAL
     \<and> ob_legs (bear_put_vertical_close s1 s2 q p :: ('q, 'p) OrderBuilder) = [leg BUY_TO_CLOSE s1 q, leg SELL_TO_CLOSE s2 q]"
  by (simp add: vertical_recipe_defs builder_defs leg_def)

text \<open>
  Claim C9. Each single-leg recipe returns a builder with order strategy type SINGLE and
  exactly one leg, carrying the recipe's instruction, the given symbol and the given
  quantity. The four market recipes leave the price field unset; the four limit recipes
  set it to the supplied price.
\<close>

theorem single_leg_recipes:
  fixes s :: string and q :: 'q and p :: 'p
  shows
    "ob_order_strategy_type (option_buy_to_open_market s q :: ('q, 'p) OrderBuilder) = Some SINGLE
     \<and> ob_legs (option_buy_to_open_market s q :: ('q, 'p) OrderBuilder) = [leg BUY_TO_OPEN s q]
     \<and> ob_price (option_buy_to_open_market s q :: ('q, 'p) OrderBuilder) = None
     \<and> ob_order_strategy_type (option_sell_to_open_market s q :: ('q, 'p) OrderBuilder) = Some SINGLE
     \<and> ob_legs (option_sell_to_open_market s q :: ('q, 'p) OrderBuilder) = [leg SELL_TO_OPEN s q]
     \<and> ob_price (option_sell_to_open_market s q :: ('q, 'p) OrderBuilder) = None
     \<and> ob_order_strategy_type (option_buy_to_close_market s q :: ('q, 'p) OrderBuilder) = Some SINGLE
     \<and> ob_legs (option_buy_to_close_market s q :: ('q, 'p) OrderBuilder) = [leg BUY_TO_CLOSE s q]
     \<and> ob_price (option_buy_to_close_market s q :: ('q, 'p) OrderBuilder) = None
     \<and> ob_order_strategy_type (option_sell_to_close_market s q :: ('q, 'p) OrderBuilder) = Some SINGLE
     \<and> ob_legs (option_sell_to_close_market s q :: ('q, 'p) OrderBuilder) = [leg SELL_TO_CLOSE s q]
     \<and> ob_price (option_sell_to_close_market s q :: ('q, 'p) OrderBuilder) = None
     \<and> ob_order_strategy_type (option_buy_to_open_limit s q p) = Some SINGLE
     \<and> ob_legs (option_buy_to_open_limit s q p) = [leg BUY_TO_OPEN s q]
     \<and> ob_price (option_buy_to_open_limit s q p) = Some p
     \<and> ob_order_strategy_type (option_sell_to_open_limit s q p) = Some SINGLE
     \<and> ob_legs (option_sell_to_open_limit s q p) = [leg SELL_TO_OPEN s q]
     \<and> ob_price (option_sell_to_open_limit s q p) = Some p
     \<and> ob_order_strategy_type (option_buy_to_close_limit s q p) = Some SINGLE
     \<and> ob_legs (option_buy_to_close_limit s q p) = [leg BUY_TO_CLOSE s q]
     \<and> ob_price (option_buy_to_close_limit s q p) = Some p
     \<and> ob_order_strategy_type (option_sell_to_close_limit s q p) = Some SINGLE
     \<and> ob_legs (option_sell_to_close_limit s q p) = [leg SELL_TO_CLOSE s q]
     \<and> ob_price (option_sell_to_close_limit s q p) = Some p"
  by (simp add: single_recipe_defs builder_defs leg_def)

text \<open>
  Claim C10. Every vertical-spread recipe sets the order strategy type to SINGLE, the value
  the single-leg recipes use, next to the complex order strategy type VERTICAL; and the
  builder returned by any of the sixteen recipes of the module has order strategy type
  SINGLE, never another member of the enumeration.
\<close>

theorem order_strategy_type_always_single:
  fixes s1 s2 :: string and q :: 'q and p :: 'p
  shows
    "ob_order_strategy_type (bull_call_vertical_open s1 s2 q p) = Some SINGLE
     \<and> ob_order_strategy_type (bull_call_vertical_close s1 s2 q p) = Some SINGLE
     \<and> ob_order_strategy_type (bear_call_vertical_open s1 s2 q p) = Some SINGLE
     \<and> ob_order_strategy_type (bear_call_vertical_close s1 s2 q p) = Some SINGLE
     \<and> ob_order_strategy_type (bull_put_vertical_open s1 s2 q p) = Some SINGLE
     \<and> ob_order_strategy_type (bull_put_vertical_close s1 s2 q p) = Some SINGLE
     \<and> ob_order_strategy_type (bear_put_vertical_open s1 s2 q p) = Some SINGLE
     \<and> ob_order_strategy_type (bear_put_vertical_close s1 s2 q p) = Some SINGLE
     \<and> ob_complex_order_strategy_type (bull_call_vertical_open s1 s2 q p) = Some VERTICAL
     \<and> ob_complex_order_strategy_type (bull_call_vertical_close s1 s2 q p) = Some VERTICAL
     \<and> ob_complex_order_strategy_type (bear_call_vertical_open s1 s2 q p) = Some VERTICAL
     \<and> ob_complex_order_strategy_type (bear_call_vertical_close s1 s2 q p) = Some VERTICAL
     \<and> ob_complex_order_strategy_type (bull_put_vertical_open s1 s2 q p) = Some VERTICAL
     \<and> ob_complex_order_strategy_type (bull_put_vertical_close s1 s2 q p) = Some VERTICAL
     \<and> ob_complex_order_strategy_type (bear_put_vertical_open s1 s2 q p) = Some VERTICAL
     \<and> ob_complex_order_strategy_type (bear_put_vertical_close s1 s2 q p) = Some VERTICAL
     \<and> ob_order_strategy_type (option_buy_to_open_market s1 q :: ('q, 'p) OrderBuilder) = Some SINGLE
     \<and> ob_order_strategy_type (option_sell_to_open_market s1 q :: ('q, 'p) OrderBuilder) = Some SINGLE
     \<and> ob_order_strategy_type (option_buy_to_close_market s1 q :: ('q, 'p) OrderBuilder) = Some SINGLE
     \<and> ob_order_strategy_type (option_sell_to_close_market s1 q :: ('q, 'p) OrderBuilder) = Some SINGLE
     \<and> ob_order_strategy_type (option_buy_to_open_limit s1 q p) = Some SINGLE
     \<and> ob_order_strategy_type (option_sell_to_open_limit s1 q p) = Some SINGLE
     \<and> ob_order_strategy_type (option_buy_to_close_limit s1 q p) = Some SINGLE
     \<and> ob_order_strategy_type (option_sell_to_close_limit s1 q p) = Some SINGLE"
  by (simp add: vertical_recipe_defs single_recipe_defs builder_defs)

end
